theory Spec2Isabelle
  imports Complex_Main "HOL-Library.AList"
begin

section \<open>Numbers and strings of the source\<close>

text \<open>
  The source is JavaScript. Its numbers are modelled as real numbers with exact
  arithmetic; a value the code tests with \<open>Number.isFinite\<close> is an option, with
  \<open>None\<close> for NaN and the infinities. Strings are lists of 8-bit code units.
\<close>

text \<open>\<open>Math.round\<close>: the nearest integer, a tie going towards plus infinity.\<close>

definition js_round :: "real \<Rightarrow> real" where
  "js_round x = of_int \<lfloor>x + 1 / 2\<rfloor>"



text \<open>
  \<open>parseFloat(x.toFixed(d))\<close>: the nearest multiple of \<open>10^-d\<close>, a tie going away
  from zero (\<open>toFixed\<close> treats the sign apart and picks the larger magnitude).
\<close>

definition toFixed :: "real \<Rightarrow> nat \<Rightarrow> real" where
  "toFixed x d = (if x < 0 then - (of_int \<lfloor>- x * 10 ^ d + 1 / 2\<rfloor> / 10 ^ d)
                  else of_int \<lfloor>x * 10 ^ d + 1 / 2\<rfloor> / 10 ^ d)"

text \<open>\<open>String.prototype.includes\<close>.\<close>

fun starts_with :: "string \<Rightarrow> string \<Rightarrow> bool" where
  "starts_with s [] = True"
| "starts_with [] (c # cs) = False"
| "starts_with (x # xs) (c # cs) = (x = c \<and> starts_with xs cs)"

fun includes_str :: "string \<Rightarrow> string \<Rightarrow> bool" where
  "includes_str [] pat = (pat = [])"
| "includes_str (x # xs) pat = (starts_with (x # xs) pat \<or> includes_str xs pat)"

text \<open>
  \<open>String.prototype.trim\<close> and \<open>toLowerCase\<close> on 8-bit code units: the white space
  of ECMAScript below 256 is TAB, LF, VT, FF, CR, SP and NBSP.
\<close>

definition isWhiteSpace :: "char \<Rightarrow> bool" where
  "isWhiteSpace c = ((of_char c :: nat) \<in> {9, 10, 11, 12, 13, 32, 160})"

definition trim :: "string \<Rightarrow> string" where
  "trim s = rev (dropWhile isWhiteSpace (rev (dropWhile isWhiteSpace s)))"

definition lowerChar :: "char \<Rightarrow> char" where
  "lowerChar c = (let n = (of_char c :: nat) in
     if (65 \<le> n \<and> n \<le> 90) \<or> (192 \<le> n \<and> n \<le> 222 \<and> n \<noteq> 215)
     then char_of (n + 32) else c)"

definition toLowerCase :: "string \<Rightarrow> string" where
  "toLowerCase s = map lowerChar s"

section \<open>Retry with backoff (utils.js)\<close>

text \<open>
  The wrapped function is effectful; \<open>fn k\<close> is what its invocation number \<open>k\<close>
  (counted from 0) does: it returns a value (\<open>Inr\<close>) or throws an error whose
  \<open>toString()\<close> is the given text (\<open>Inl\<close>). The loop invokes it once per value of
  \<open>attempt\<close>, so the invocation number is \<open>attempt\<close>.
\<close>

datatype 'a retry_outcome = Returned 'a | Thrown "string option"

record 'a retry_run =
  outcome :: "'a retry_outcome"
  invocations :: nat
  delays :: "real list"

definition rateLimited :: "string \<Rightarrow> bool" where
  "rateLimited msg = (includes_str msg ''429'' \<or> includes_str msg ''Too Many Requests'')"

function retry_loop ::
  "(nat \<Rightarrow> string + 'a) \<Rightarrow> nat \<Rightarrow> real \<Rightarrow> nat \<Rightarrow> string option \<Rightarrow> 'a retry_run" where
  "retry_loop fn maxRetries baseDelay attempt lastError =
     (if attempt \<le> maxRetries then
        (case fn attempt of
           Inr v \<Rightarrow> \<lparr>outcome = Returned v, invocations = 1, delays = []\<rparr>
         | Inl err \<Rightarrow>
             if rateLimited err then
               (if attempt < maxRetries then
                  (let delay = baseDelay * 2 ^ attempt;
                       r = retry_loop fn maxRetries baseDelay (attempt + 1) (Some err)
                   in r\<lparr>invocations := invocations r + 1, delays := delay # delays r\<rparr>)
                else \<lparr>outcome = Thrown (Some err), invocations = 1, delays = []\<rparr>)
             else \<lparr>outcome = Thrown (Some err), invocations = 1, delays = []\<rparr>)
      else \<lparr>outcome = Thrown lastError, invocations = 0, delays = []\<rparr>)"
  by pat_completeness auto
termination
  by (relation "measure (\<lambda>(fn, maxRetries, baseDelay, attempt, lastError). maxRetries + 1 - attempt)") auto

text \<open>\<open>retryWithBackoff(fn, maxRetries = 3, baseDelay = 1000)\<close>.\<close>

definition retryWithBackoff :: "(nat \<Rightarrow> string + 'a) \<Rightarrow> nat \<Rightarrow> real \<Rightarrow> 'a retry_run" where
  "retryWithBackoff fn maxRetries baseDelay = retry_loop fn maxRetries baseDelay 0 None"

section \<open>Trade fees (OrderExecutor.calculateTradeFee)\<close>

record fee_rates =
  takerFeeRate :: real
  makerFeeRate :: real

record fee_info =
  fee :: real
  feeRate :: real
  feeType :: string

text \<open>
  The order type is a string or a falsy value (\<open>None\<close>), which \<open>orderType || ''\<close>
  turns into the empty string. An omitted argument is \<open>Some ''market''\<close> by the
  default parameter.
\<close>

definition calculateTradeFee :: "fee_rates \<Rightarrow> real \<Rightarrow> real \<Rightarrow> string option \<Rightarrow> fee_info" where
  "calculateTradeFee this sz px orderType =
     (let value = sz * px;
          normalizedType = toLowerCase (trim (case orderType of None \<Rightarrow> [] | Some s \<Rightarrow> s));
          isMakerGuaranteed = (normalizedType = ''alo'');
          rate = (if isMakerGuaranteed then makerFeeRate this else takerFeeRate this)
      in \<lparr>fee = value * rate, feeRate = rate,
          feeType = (if isMakerGuaranteed then ''maker'' else ''taker'')\<rparr>)"

section \<open>Position ledger (PositionTracker, utils.js)\<close>

text \<open>
  The clock (\<open>Date.now()\<close>, \<open>new Date().toISOString()\<close>) is the parameter \<open>now\<close>
  of each operation. A position id is built from the agent, the coin and the clock;
  a partial close appends the clock to the id of the position it splits.
\<close>

datatype position_id = PositionId string string nat | PartialId position_id nat

record order_leg =
  l_side :: string
  l_size :: real
  l_price :: real
  l_fee :: real
  l_feeRate :: real
  l_orderType :: string
  l_orderId :: string
  l_timestamp :: nat

record pnl_info =
  gross :: real
  net :: real
  fees_entry :: real
  fees_exit :: real
  fees_total :: real
  percent :: real
  entryValue :: real
  exitValue :: real
  estimated :: bool

record position =
  positionId :: position_id
  coin :: string
  status :: string
  entry :: order_leg
  exit :: "order_leg option"
  pnl :: "pnl_info option"
  createdAt :: nat
  updatedAt :: nat
  closedAt :: "nat option"

record trade =
  t_positionId :: position_id
  t_coin :: string
  t_type :: string
  t_side :: string
  t_size :: real
  t_price :: real
  t_fee :: real
  t_feeRate :: real
  t_orderType :: string
  t_orderId :: string
  t_timestamp :: nat
  t_pnl :: "pnl_info option"
  t_remainingSize :: "real option"

record sltp_entry =
  p_coin :: string
  p_cloid :: "string option"
  p_orderType :: string

text \<open>
  The tracker's memory. \<open>openPositions\<close> is a JavaScript object keyed by coin, kept
  here as an association list in insertion order. The caps \<open>MAX_HISTORY_ENTRIES\<close> (6000)
  and \<open>MAX_TRADE_ENTRIES\<close> (8000) of the configuration are fields of the state. The files
  the tracker writes are copies of this memory and are not modelled.
\<close>

record tracker =
  agentId :: string
  defaultTakerFeeRate :: real
  openPositions :: "(string \<times> position) list"
  closedPositions :: "position list"
  trades :: "trade list"
  pendingSlTp :: "(string \<times> sltp_entry) list"
  pendingSlTpByCloid :: "(string \<times> string) list"
  maxHistoryEntries :: nat
  maxTradeEntries :: nat

text \<open>\<open>xs.slice(-n)\<close> when \<open>xs.length > n\<close>; \<open>slice(-0)\<close> is the whole array.\<close>

definition capLast :: "nat \<Rightarrow> 'a list \<Rightarrow> 'a list" where
  "capLast n xs = (if length xs > n then (if n = 0 then xs else drop (length xs - n) xs) else xs)"

definition saveHistory :: "tracker \<Rightarrow> tracker" where
  "saveHistory this = this\<lparr>closedPositions := capLast (maxHistoryEntries this) (closedPositions this)\<rparr>"

definition logTrade :: "tracker \<Rightarrow> trade \<Rightarrow> tracker" where
  "logTrade this t =
     (let this1 = this\<lparr>trades := trades this @ [t]\<rparr>
      in this1\<lparr>trades := capLast (maxTradeEntries this1) (trades this1)\<rparr>)"

text \<open>
  \<open>_calculatePnl(position)\<close>. The numeric fields are real, so the \<open>Number.isFinite\<close>
  guards of the source always pass. Reading \<open>exit.price\<close> of a position without an
  exit throws; that is \<open>None\<close> here, and every caller sets the exit first.
\<close>

definition calculatePnl :: "position \<Rightarrow> pnl_info option" where
  "calculatePnl p =
     (case exit p of
        None \<Rightarrow> None
      | Some ex \<Rightarrow>
          (let entryPrice = l_price (entry p);
               entrySize = l_size (entry p);
               exitPrice = l_price ex;
               exitSize = l_size ex;
               entryFee = l_fee (entry p);
               exitFee = l_fee ex;
               isLong = (l_side (entry p) = ''buy'');
               grossPnl = (if isLong then (exitPrice - entryPrice) * exitSize
                           else (entryPrice - exitPrice) * exitSize);
               totalFees = entryFee + exitFee;
               netPnl = grossPnl - totalFees;
               positionValue = entryPrice * entrySize;
               pnlPercent = (if positionValue > 0 then (netPnl / positionValue) * 100 else 0)
           in Some \<lparr>gross = grossPnl, net = netPnl, fees_entry = entryFee, fees_exit = exitFee,
                     fees_total = totalFees, percent = pnlPercent, entryValue = positionValue,
                     exitValue = exitPrice * exitSize, estimated = False\<rparr>))"

text \<open>\<open>openPosition(coin, side, size, price, orderType, orderId, fee, feeRate)\<close>.\<close>

definition closeOpposite :: "tracker \<Rightarrow> nat \<Rightarrow> string \<Rightarrow> real \<Rightarrow> position \<Rightarrow> tracker" where
  "closeOpposite this now c px existing =
     (let estimatedExitFee = l_size (entry existing) * px * defaultTakerFeeRate this;
          closedPos0 = existing\<lparr>status := ''closed_opposite_overwrite'',
                        closedAt := Some now, updatedAt := now,
                        exit := Some \<lparr>l_side = (if l_side (entry existing) = ''buy'' then ''sell'' else ''buy''),
                                      l_size = l_size (entry existing), l_price = px,
                                      l_fee = estimatedExitFee,
                                      l_feeRate = defaultTakerFeeRate this,
                                      l_orderType = ''estimated_close'',
                                      l_orderId = ''opposite_overwrite'', l_timestamp = now\<rparr>\<rparr>;
          closedPos = closedPos0\<lparr>pnl := calculatePnl closedPos0\<rparr>;
          this1 = this\<lparr>closedPositions := closedPositions this @ [closedPos],
                       openPositions := AList.delete c (openPositions this)\<rparr>;
          this2 = saveHistory this1
      in logTrade this2
           \<lparr>t_positionId = positionId closedPos, t_coin = c, t_type = ''exit_opposite_overwrite'',
            t_side = (if l_side (entry existing) = ''buy'' then ''sell'' else ''buy''),
            t_size = l_size (entry closedPos), t_price = px,
            t_fee = estimatedExitFee, t_feeRate = defaultTakerFeeRate this,
            t_orderType = ''estimated_close'', t_orderId = ''opposite_overwrite'',
            t_timestamp = now, t_pnl = pnl closedPos, t_remainingSize = None\<rparr>)"

definition openPosition ::
  "tracker \<Rightarrow> nat \<Rightarrow> string \<Rightarrow> string \<Rightarrow> real \<Rightarrow> real \<Rightarrow> string \<Rightarrow> string \<Rightarrow> real \<Rightarrow> real
     \<Rightarrow> position_id option \<times> tracker" where
  "openPosition this now c sd sz px oType oId fe feRate =
     (if sz \<le> 0 then (None, this)
      else if px \<le> 0 then (None, this)
      else
        (let this1 = (case map_of (openPositions this) c of
                        Some existing \<Rightarrow>
                          if l_side (entry existing) \<noteq> sd
                          then closeOpposite this now c px existing else this
                      | None \<Rightarrow> this);
             newPosition =
               (let pid = PositionId (agentId this1) c now;
                    p = \<lparr>positionId = pid, coin = c, status = ''open'',
                         entry = \<lparr>l_side = sd, l_size = sz, l_price = px, l_fee = fe,
                                  l_feeRate = feRate, l_orderType = oType, l_orderId = oId,
                                  l_timestamp = now\<rparr>,
                         exit = None, pnl = None, createdAt = now, updatedAt = now,
                         closedAt = None\<rparr>;
                    this2 = this1\<lparr>openPositions := AList.update c p (openPositions this1)\<rparr>
                in (Some pid,
                    logTrade this2
                      \<lparr>t_positionId = pid, t_coin = c, t_type = ''entry'', t_side = sd,
                       t_size = sz, t_price = px, t_fee = fe, t_feeRate = feRate,
                       t_orderType = oType, t_orderId = oId, t_timestamp = now,
                       t_pnl = None, t_remainingSize = None\<rparr>))
         in case map_of (openPositions this1) c of
              Some currentExisting \<Rightarrow>
                if l_side (entry currentExisting) = sd then
                  (let oldSize = l_size (entry currentExisting);
                       oldPrice = l_price (entry currentExisting);
                       oldFee = l_fee (entry currentExisting);
                       newSize = oldSize + sz;
                       avgPrice = ((oldPrice * oldSize) + (px * sz)) / newSize;
                       totalFee = oldFee + fe;
                       p = currentExisting\<lparr>entry := (entry currentExisting)
                                                \<lparr>l_size := newSize, l_price := avgPrice,
                                                 l_fee := totalFee\<rparr>,
                                              updatedAt := now\<rparr>;
                       this2 = this1\<lparr>openPositions := AList.update c p (openPositions this1)\<rparr>
                   in (Some (positionId currentExisting),
                       logTrade this2
                         \<lparr>t_positionId = positionId currentExisting, t_coin = c, t_type = ''add'',
                          t_side = sd, t_size = sz, t_price = px, t_fee = fe, t_feeRate = feRate,
                          t_orderType = oType, t_orderId = oId, t_timestamp = now,
                          t_pnl = None, t_remainingSize = None\<rparr>))
                else newPosition
            | None \<Rightarrow> newPosition))"

text \<open>
  \<open>closePosition(coin, side, size, price, orderType, orderId, fee, feeRate)\<close>: the
  archived record, or \<open>None\<close> for the source's \<open>null\<close>.
\<close>

definition closePosition ::
  "tracker \<Rightarrow> nat \<Rightarrow> string \<Rightarrow> string \<Rightarrow> real \<Rightarrow> real \<Rightarrow> string \<Rightarrow> string \<Rightarrow> real \<Rightarrow> real
     \<Rightarrow> position option \<times> tracker" where
  "closePosition this now c sd sz px oType oId fe feRate =
     (if sz \<le> 0 then (None, this)
      else if px \<le> 0 then (None, this)
      else case map_of (openPositions this) c of
        None \<Rightarrow> (None, this)
      | Some pos \<Rightarrow>
          (let entrySize = l_size (entry pos);
               closeSize = min sz entrySize
           in if closeSize < entrySize then
                (let closedPortion0 = pos\<lparr>positionId := PartialId (positionId pos) now,
                        entry := (entry pos)\<lparr>l_size := closeSize,
                                   l_fee := l_fee (entry pos) * (closeSize / entrySize)\<rparr>,
                        exit := Some \<lparr>l_side = sd, l_size = closeSize, l_price = px, l_fee = fe,
                                      l_feeRate = feRate, l_orderType = oType, l_orderId = oId,
                                      l_timestamp = now\<rparr>\<rparr>;
                     closedPortion = closedPortion0\<lparr>pnl := calculatePnl closedPortion0,
                        status := ''closed'', closedAt := Some now, updatedAt := now\<rparr>;
                     remainingSize = entrySize - closeSize;
                     remaining = pos\<lparr>entry := (entry pos)\<lparr>l_size := remainingSize,
                                     l_fee := l_fee (entry pos) * (remainingSize / entrySize)\<rparr>,
                                   updatedAt := now\<rparr>;
                     this1 = this\<lparr>closedPositions := closedPositions this @ [closedPortion],
                                  openPositions := AList.update c remaining (openPositions this)\<rparr>;
                     this2 = saveHistory this1
                 in (Some closedPortion,
                     logTrade this2
                       \<lparr>t_positionId = positionId closedPortion, t_coin = c,
                        t_type = ''partial_exit'', t_side = sd, t_size = closeSize, t_price = px,
                        t_fee = fe, t_feeRate = feRate, t_orderType = oType, t_orderId = oId,
                        t_timestamp = now, t_pnl = pnl closedPortion,
                        t_remainingSize = Some remainingSize\<rparr>))
              else
                (let closed0 = pos\<lparr>exit := Some \<lparr>l_side = sd, l_size = closeSize, l_price = px,
                                      l_fee = fe, l_feeRate = feRate, l_orderType = oType,
                                      l_orderId = oId, l_timestamp = now\<rparr>\<rparr>;
                     closed = closed0\<lparr>pnl := calculatePnl closed0, status := ''closed'',
                                closedAt := Some now, updatedAt := now\<rparr>;
                     this1 = this\<lparr>closedPositions := closedPositions this @ [closed],
                                  openPositions := AList.delete c (openPositions this)\<rparr>;
                     this2 = saveHistory this1
                 in (Some closed,
                     logTrade this2
                       \<lparr>t_positionId = positionId closed, t_coin = c, t_type = ''exit'',
                        t_side = sd, t_size = closeSize, t_price = px, t_fee = fe,
                        t_feeRate = feRate, t_orderType = oType, t_orderId = oId,
                        t_timestamp = now, t_pnl = pnl closed, t_remainingSize = None\<rparr>))))"








text \<open>
  \<open>reconcile(exchangePositions, currentMids = null, recentFills = null)\<close>. An exchange
  position has a signed size. \<open>currentMids\<close> maps a coin to its parsed mid price; a
  coin without a usable entry is absent. \<open>new Map(entries)\<close> keeps the first position
  of a key and the last value given for it.
\<close>

record exchange_position =
  x_coin :: string
  x_size :: real
  x_entryPrice :: real



definition exchangeMapOf :: "exchange_position list \<Rightarrow> (string \<times> exchange_position) list" where
  "exchangeMapOf exchangePositions =
     foldl (\<lambda>m p. AList.update (x_coin p) p m) [] (filter (\<lambda>p. x_size p \<noteq> 0) exchangePositions)"











section \<open>Trigger engine (BaseAgent)\<close>

text \<open>
  A trigger lives in the map \<open>activeTriggers\<close>, kept here in insertion order, and its
  callback in \<open>triggerCallbacks\<close>. The callbacks are the strategy's code: the model
  records that one is invoked, and takes from the environment whether that invocation
  throws. What the engine writes to the status sink and invokes is a list of reports.
\<close>

record price_condition =
  pc_above :: "real option"
  pc_below :: "real option"
  pc_crosses :: "real option"

record price_trigger =
  pt_coin :: string
  pt_condition :: price_condition
  lastPrice :: "real option"

text \<open>
  An indicator value is a number or an object with numeric fields (MACD, Stochastic).
  A value taken for comparison is \<open>None\<close> when it is not a number (an object, or a
  missing field): every JavaScript comparison with it is false.
\<close>

datatype ivalue = Num real | Obj "(string \<times> real) list"

datatype trigger_value = NoValue | Single ivalue | FastSlow "real option" "real option"

record technical_condition =
  tc_above :: "real option"
  tc_below :: "real option"
  tc_between :: "(real \<times> real) option"
  tc_outside :: "(real \<times> real) option"
  tc_crosses_above :: "real option"
  tc_crosses_below :: "real option"
  tc_crossover :: bool
  tc_crossunder :: bool
  tc_checkField :: "string option"

record technical_trigger =
  tt_coin :: string
  tt_indicator :: string
  tt_condition :: technical_condition
  tt_lastValue :: trigger_value
  tt_lastConditionMet :: bool
  tt_lastCheckTime :: nat

record sub_condition =
  sc_indicator :: string
  sc_condition :: technical_condition
  sc_lastConditionMet :: bool
  sc_lastValue :: trigger_value

record composite_trigger =
  ct_coin :: string
  ct_operator :: string
  ct_subConditions :: "sub_condition list"
  ct_lastConditionMet :: bool
  ct_lastCheckTime :: nat

datatype trigger =
    Price price_trigger
  | Technical technical_trigger
  | Composite composite_trigger
  | Scheduled
  | Event

record engine =
  activeTriggers :: "(string \<times> trigger) list"
  triggerCallbacks :: "string list"

datatype report =
    TriggerFired string
  | CallbackInvoked string
  | StillActive string
  | NotMet string
  | InsufficientData string nat
  | EvaluationError string

text \<open>The registration functions; the trigger id is built from the clock and a random string.\<close>

definition registerPriceTrigger :: "engine \<Rightarrow> string \<Rightarrow> string \<Rightarrow> price_condition \<Rightarrow> engine" where
  "registerPriceTrigger this triggerId c cond =
     this\<lparr>activeTriggers := AList.update triggerId
              (Price \<lparr>pt_coin = c, pt_condition = cond, lastPrice = None\<rparr>) (activeTriggers this),
          triggerCallbacks := List.insert triggerId (triggerCallbacks this)\<rparr>"

definition registerTechnicalTrigger ::
  "engine \<Rightarrow> string \<Rightarrow> string \<Rightarrow> string \<Rightarrow> technical_condition \<Rightarrow> engine" where
  "registerTechnicalTrigger this triggerId c ind cond =
     this\<lparr>activeTriggers := AList.update triggerId
              (Technical \<lparr>tt_coin = c, tt_indicator = ind, tt_condition = cond,
                          tt_lastValue = NoValue, tt_lastConditionMet = False,
                          tt_lastCheckTime = 0\<rparr>) (activeTriggers this),
          triggerCallbacks := List.insert triggerId (triggerCallbacks this)\<rparr>"

definition registerCompositeTrigger ::
  "engine \<Rightarrow> string \<Rightarrow> string \<Rightarrow> string \<Rightarrow> (string \<times> technical_condition) list \<Rightarrow> string + engine" where
  "registerCompositeTrigger this triggerId c operator subConditions =
     (if operator \<noteq> ''AND'' \<and> operator \<noteq> ''OR''
      then Inl ''Invalid composite operator''
      else if length subConditions < 2
      then Inl ''Composite triggers require at least 2 sub-conditions''
      else Inr (this\<lparr>activeTriggers := AList.update triggerId
                  (Composite \<lparr>ct_coin = c, ct_operator = operator,
                     ct_subConditions = map (\<lambda>(ind, cond).
                        \<lparr>sc_indicator = ind, sc_condition = cond, sc_lastConditionMet = False,
                         sc_lastValue = NoValue\<rparr>) subConditions,
                     ct_lastConditionMet = False, ct_lastCheckTime = 0\<rparr>) (activeTriggers this),
                triggerCallbacks := List.insert triggerId (triggerCallbacks this)\<rparr>))"

subsection \<open>Price triggers\<close>

text \<open>The \<open>shouldTrigger\<close> chain of \<open>_evaluatePriceTriggers\<close>.\<close>

definition priceShouldTrigger :: "price_condition \<Rightarrow> real option \<Rightarrow> real \<Rightarrow> bool" where
  "priceShouldTrigger cond lastP currentPrice =
     (if (case pc_above cond of
            None \<Rightarrow> False
          | Some a \<Rightarrow> currentPrice > a \<and> (case lastP of None \<Rightarrow> True | Some lp \<Rightarrow> lp \<le> a))
      then True
      else if (case pc_below cond of
                 None \<Rightarrow> False
               | Some b \<Rightarrow> currentPrice < b \<and> (case lastP of None \<Rightarrow> True | Some lp \<Rightarrow> lp \<ge> b))
      then True
      else (case pc_crosses cond of
              None \<Rightarrow> False
            | Some x \<Rightarrow>
                (case lastP of
                   None \<Rightarrow> False
                 | Some lp \<Rightarrow> (lp < x \<and> currentPrice \<ge> x) \<or> (lp > x \<and> currentPrice \<le> x))))"

text \<open>
  The loop over the triggers: the triggers after the tick, the reports, and whether a
  callback threw. A throw leaves the loop through the \<open>catch\<close> of the function, before
  the last price of that trigger is stored. \<open>mids\<close> maps a coin to its parsed mid price;
  a missing coin reads as 0 and is skipped.
\<close>

fun priceLoop ::
  "(string \<rightharpoonup> real) \<Rightarrow> string list \<Rightarrow> (string \<Rightarrow> bool) \<Rightarrow> (string \<times> trigger) list
     \<Rightarrow> (string \<times> trigger) list \<times> report list \<times> bool" where
  "priceLoop mids cbs throws [] = ([], [], False)"
| "priceLoop mids cbs throws ((triggerId, t) # rest) =
     (case t of
        Price pt \<Rightarrow>
          (let currentPrice = (case mids (pt_coin pt) of None \<Rightarrow> 0 | Some m \<Rightarrow> m)
           in if currentPrice = 0 then
                (case priceLoop mids cbs throws rest of
                   (rest', reps, thrown) \<Rightarrow> ((triggerId, t) # rest', reps, thrown))
              else
                (let shouldTrigger = priceShouldTrigger (pt_condition pt) (lastPrice pt) currentPrice;
                     fired = (if shouldTrigger
                              then TriggerFired triggerId #
                                   (if triggerId \<in> set cbs then [CallbackInvoked triggerId] else [])
                              else [])
                 in if shouldTrigger \<and> triggerId \<in> set cbs \<and> throws triggerId
                    then ((triggerId, t) # rest, fired, True)
                    else (case priceLoop mids cbs throws rest of
                            (rest', reps, thrown) \<Rightarrow>
                              ((triggerId, Price (pt\<lparr>lastPrice := Some currentPrice\<rparr>)) # rest',
                               fired @ reps, thrown))))
      | _ \<Rightarrow>
          (case priceLoop mids cbs throws rest of
             (rest', reps, thrown) \<Rightarrow> ((triggerId, t) # rest', reps, thrown)))"

fun isTriggerFired :: "report \<Rightarrow> bool" where
  "isTriggerFired (TriggerFired i) = True"
| "isTriggerFired r = False"

text \<open>
  \<open>_evaluatePriceTriggers()\<close>: the engine, the reports and the returned flag
  (\<open>triggersFired > 0\<close>, or \<open>false\<close> from the \<open>catch\<close>). \<open>mids\<close> is
  \<open>None\<close> when fetching the prices throws.
\<close>

definition evaluatePriceTriggers ::
  "engine \<Rightarrow> (string \<rightharpoonup> real) option \<Rightarrow> (string \<Rightarrow> bool) \<Rightarrow> engine \<times> report list \<times> bool" where
  "evaluatePriceTriggers this mids throws =
     (case mids of
        None \<Rightarrow> (this, [], False)
      | Some m \<Rightarrow>
          (case priceLoop m (triggerCallbacks this) throws (activeTriggers this) of
             (ts, reps, thrown) \<Rightarrow>
               (this\<lparr>activeTriggers := ts\<rparr>, reps,
                \<not> thrown \<and> list_ex isTriggerFired reps)))"

subsection \<open>Technical and composite triggers\<close>























section \<open>Order execution (OrderExecutor)\<close>

text \<open>
  The metadata of a coin as the executor reads it: \<open>szDecimals\<close> (\<open>?? 4\<close> when absent)
  and \<open>maxLeverage\<close> (\<open>parseInt(maxLeverage || "20")\<close>).
\<close>

record coin_info =
  ci_szDecimals :: "nat option"
  ci_maxLeverage :: "nat option"

definition szDecimalsOf :: "coin_info \<Rightarrow> nat" where
  "szDecimalsOf info = (case ci_szDecimals info of None \<Rightarrow> 4 | Some d \<Rightarrow> d)"

definition maxLeverageOf :: "coin_info \<Rightarrow> nat" where
  "maxLeverageOf info = (case ci_maxLeverage info of None \<Rightarrow> 20 | Some n \<Rightarrow> if n = 0 then 20 else n)"

text \<open>\<open>Number.isInteger\<close> on a finite number.\<close>

definition isInteger :: "real \<Rightarrow> bool" where
  "isInteger x = (x = of_int \<lfloor>x\<rfloor>)"

text \<open>
  The two rounding steps of \<open>_roundPrice\<close>, for a price that is neither zero nor an
  integer: to five significant figures, then to at most \<open>6 - szDecimals\<close> decimals.
\<close>

definition roundToTick :: "real \<Rightarrow> nat \<Rightarrow> real" where
  "roundToTick price szDecimals =
     (let sigFigs = 5;
          magnitude = \<lfloor>log 10 \<bar>price\<bar>\<rfloor>;
          scale = 10 powi (sigFigs - 1 - magnitude);
          rounded = js_round (price * scale) / scale;
          maxDecimals = nat (max 0 (6 - int szDecimals));
          decimalScale = 10 ^ maxDecimals
      in js_round (rounded * decimalScale) / decimalScale)"

text \<open>
  \<open>_roundPrice(price, coin)\<close>. The price is \<open>None\<close> when it is not finite, and the look-up
  of the coin is \<open>Inl\<close> when it throws (an unknown coin); \<open>Inl\<close> is a thrown error.
\<close>

definition roundPrice :: "real option \<Rightarrow> string + coin_info \<Rightarrow> string + real" where
  "roundPrice price coinInfo =
     (case price of
        None \<Rightarrow> Inl ''Invalid price''
      | Some p \<Rightarrow>
          if p = 0 then Inr 0
          else if isInteger p then Inr p
          else (case coinInfo of
                  Inl err \<Rightarrow> Inl err
                | Inr info \<Rightarrow> Inr (roundToTick p (szDecimalsOf info))))"

text \<open>
  What \<open>placeMarketOrder\<close> reads from outside: the coin metadata, the leverage set for
  the order, the mid prices, the available balance and the account value, each \<open>Inl\<close> when
  the call throws; a number that is not finite is \<open>None\<close>.
\<close>

record market_env =
  m_coinInfo :: "string + coin_info"
  m_leverage :: "string + real option"
  m_allMids :: "string + (string \<rightharpoonup> real)"
  m_balance :: "string + real option"
  m_accountValue :: "string + real"
  m_takerFeeRate :: real

record order_request =
  q_coin :: string
  q_is_buy :: bool
  q_sz :: real
  q_limit_px :: real
  q_reduce_only :: bool

datatype market_error =
    InvalidSize
  | CouldNotGetPrice
  | InvalidLeverage
  | InsufficientAvailableBalance real
  | InsufficientBalance real real real
  | OrderException string

text \<open>
  The result: the order handed to the exchange client (an immediate-or-cancel limit
  order), or the failed result returned before. The first component is the warning
  \<open>Requested size exceeds max, adjusting to max\<close> with the two sizes.
\<close>

datatype market_result = Rejected market_error | Placed order_request

definition maxSizeOf :: "real \<Rightarrow> real \<Rightarrow> real \<Rightarrow> real \<Rightarrow> nat \<Rightarrow> real" where
  "maxSizeOf availableBalance effectiveLev takerRate midPrice szDecimals =
     (let denom = (1 / effectiveLev) + takerRate;
          maxNotional = (if denom > 0 then availableBalance / denom else 0);
          rawMaxSize = maxNotional / midPrice
      in toFixed (max 0 rawMaxSize) szDecimals)"

definition submitOrder :: "market_env \<Rightarrow> string \<Rightarrow> bool \<Rightarrow> real \<Rightarrow> bool \<Rightarrow> real \<Rightarrow> real \<Rightarrow> market_result" where
  "submitOrder env c isBuy sz reduceOnly slippage midPrice =
     (let limitPrice = (if isBuy then midPrice * (1 + slippage) else midPrice * (1 - slippage))
      in case roundPrice (Some limitPrice) (m_coinInfo env) of
           Inl err \<Rightarrow> Rejected (OrderException err)
         | Inr roundedLimitPrice \<Rightarrow>
             Placed \<lparr>q_coin = c, q_is_buy = isBuy, q_sz = sz, q_limit_px = roundedLimitPrice,
                     q_reduce_only = reduceOnly\<rparr>)"

definition checkedOrder ::
  "market_env \<Rightarrow> coin_info \<Rightarrow> string \<Rightarrow> bool \<Rightarrow> real \<Rightarrow> real \<Rightarrow> real \<Rightarrow> real option \<Rightarrow> real option
     \<Rightarrow> (real \<times> real) option \<times> market_result" where
  "checkedOrder env coinInfo c isBuy sz slippage midPrice leverageForOrder rawBalance =
     (let availableBalance = (case rawBalance of None \<Rightarrow> 0 | Some b \<Rightarrow> max 0 b);
          maxLev = real (maxLeverageOf coinInfo)
      in case leverageForOrder of
           None \<Rightarrow> (None, Rejected InvalidLeverage)
         | Some lev \<Rightarrow>
             (let effectiveLev = min lev maxLev
              in if effectiveLev \<le> 0 then (None, Rejected InvalidLeverage)
                 else
                   (let maxSize = maxSizeOf availableBalance effectiveLev (m_takerFeeRate env)
                                    midPrice (szDecimalsOf coinInfo)
                    in if sz > maxSize \<and> maxSize \<le> 0
                       then (None, Rejected (InsufficientAvailableBalance availableBalance))
                       else
                         (let warning = (if sz > maxSize then Some (sz, maxSize) else None);
                              sz2 = (if sz > maxSize then maxSize else sz)
                          in if sz2 \<le> 0 then (warning, Rejected InvalidSize)
                             else
                               (let positionValue = sz2 * midPrice;
                                    estimatedFee = positionValue * m_takerFeeRate env;
                                    requiredMargin = (positionValue / effectiveLev) + estimatedFee
                                in if requiredMargin > availableBalance then
                                     (case m_accountValue env of
                                        Inl err \<Rightarrow> (warning, Rejected (OrderException err))
                                      | Inr accountValue \<Rightarrow>
                                          (warning, Rejected (InsufficientBalance requiredMargin
                                                      estimatedFee availableBalance)))
                                   else (warning, submitOrder env c isBuy sz2 False slippage
                                                    midPrice))))))"

text \<open>\<open>placeMarketOrder(coin, isBuy, size, reduceOnly = false, slippage = 0.05)\<close>.\<close>

definition placeMarketOrder ::
  "market_env \<Rightarrow> string \<Rightarrow> bool \<Rightarrow> real option \<Rightarrow> bool \<Rightarrow> real
     \<Rightarrow> (real \<times> real) option \<times> market_result" where
  "placeMarketOrder env c isBuy size0 reduceOnly slippage =
     (case m_coinInfo env of
        Inl err \<Rightarrow> (None, Rejected (OrderException err))
      | Inr coinInfo \<Rightarrow>
          (case size0 of
             None \<Rightarrow> (None, Rejected InvalidSize)
           | Some s0 \<Rightarrow>
               (let sz = toFixed s0 (szDecimalsOf coinInfo)
                in if sz \<le> 0 then (None, Rejected InvalidSize)
                   else
                     (case m_leverage env of
                        Inl err \<Rightarrow> (None, Rejected (OrderException err))
                      | Inr leverageForOrder \<Rightarrow>
                     (case m_allMids env of
                        Inl err \<Rightarrow> (None, Rejected (OrderException err))
                      | Inr allMids \<Rightarrow>
                     (case (if reduceOnly then Inr None else m_balance env) of
                        Inl err \<Rightarrow> (None, Rejected (OrderException err))
                      | Inr rawBalanceOrNull \<Rightarrow>
                          (let midPrice = (case allMids c of None \<Rightarrow> 0 | Some m \<Rightarrow> m)
                           in if midPrice = 0 then (None, Rejected CouldNotGetPrice)
                              else if \<not> reduceOnly then
                                checkedOrder env coinInfo c isBuy sz slippage midPrice
                                  leverageForOrder rawBalanceOrNull
                              else (None, submitOrder env c isBuy sz True slippage midPrice))))))))"

section \<open>Realtime subscription multiplexer (HyperliquidWSManager, ws.js)\<close>

text \<open>
  A parameter object is the list of its properties in insertion order; callbacks are
  numbered, and a \<open>Set\<close> of them is the list of its members in insertion order.
\<close>

type_synonym ws_params = "(string \<times> string) list"

record subscription =
  sub_channel :: string
  sub_params :: ws_params
  sub_callbacks :: "nat list"





text \<open>The default \<open>Array.prototype.sort\<close> on strings: by code units, a prefix first.\<close>

fun str_le :: "string \<Rightarrow> string \<Rightarrow> bool" where
  "str_le [] t = True"
| "str_le (x # xs) [] = False"
| "str_le (x # xs) (y # ys) = (if x = y then str_le xs ys else (of_char x :: nat) < of_char y)"

fun insert_key :: "string \<Rightarrow> string list \<Rightarrow> string list" where
  "insert_key k [] = [k]"
| "insert_key k (x # xs) = (if str_le k x then k # x # xs else x # insert_key k xs)"

definition sort_keys :: "string list \<Rightarrow> string list" where
  "sort_keys ks = foldr insert_key ks []"

fun join :: "string \<Rightarrow> string list \<Rightarrow> string" where
  "join sep [] = []"
| "join sep [x] = x"
| "join sep (x # y # ys) = x @ sep @ join sep (y # ys)"

definition property :: "ws_params \<Rightarrow> string \<Rightarrow> string" where
  "property params k = (case map_of params k of None \<Rightarrow> ''undefined'' | Some v \<Rightarrow> v)"

text \<open>\<open>_makeKey(channel, params)\<close>.\<close>

definition makeKey :: "string \<Rightarrow> ws_params \<Rightarrow> string" where
  "makeKey channel params =
     (let paramStr = join ''&'' (map (\<lambda>k. k @ ''='' @ property params k) (sort_keys (map fst params)))
      in if paramStr \<noteq> [] then channel @ '':'' @ paramStr else channel)"



























text \<open>
  The table is well keyed when its keys are distinct and each is the key of its entry's
  channel and parameters; parameters are proper when they have no property twice and no
  property \<open>type\<close> (the public methods pass \<open>{}\<close>, \<open>{coin}\<close> or \<open>{user}\<close>).
\<close>

definition keyed :: "(string \<times> subscription) list \<Rightarrow> bool" where
  "keyed subs = (distinct (map fst subs) \<and>
                 list_all (\<lambda>e. fst e = makeKey (sub_channel (snd e)) (sub_params (snd e))) subs)"


section \<open>Concrete inputs\<close>

definition exampleTracker :: tracker where
  "exampleTracker = \<lparr>agentId = ''agent'', defaultTakerFeeRate = 45 / 100000,
     openPositions = [], closedPositions = [], trades = [], pendingSlTp = [],
     pendingSlTpByCloid = [], maxHistoryEntries = 6000, maxTradeEntries = 8000\<rparr>"

definition examplePosition :: position where
  "examplePosition = \<lparr>positionId = PositionId ''agent'' ''BTC'' 1, coin = ''BTC'', status = ''open'',
     entry = \<lparr>l_side = ''buy'', l_size = 2, l_price = 100, l_fee = 1 / 10, l_feeRate = 45 / 100000,
              l_orderType = ''Ioc'', l_orderId = ''7'', l_timestamp = 1\<rparr>,
     exit = None, pnl = None, createdAt = 1, updatedAt = 1, closedAt = None\<rparr>"

definition exampleExit :: order_leg where
  "exampleExit = \<lparr>l_side = ''sell'', l_size = 2, l_price = 110, l_fee = 11 / 100,
     l_feeRate = 45 / 100000, l_orderType = ''Ioc'', l_orderId = ''8'', l_timestamp = 2\<rparr>"




definition exampleFn :: "nat \<Rightarrow> string + nat" where
  "exampleFn k = (if k < 2 then Inl ''Error: 429 Too Many Requests'' else Inr 7)"

definition exampleAbove :: price_condition where
  "exampleAbove = \<lparr>pc_above = Some 100, pc_below = None, pc_crosses = None\<rparr>"

definition exampleEngine :: engine where
  "exampleEngine =
     registerPriceTrigger \<lparr>activeTriggers = [], triggerCallbacks = []\<rparr> ''t1'' ''BTC'' exampleAbove"






definition exampleCoin :: coin_info where
  "exampleCoin = \<lparr>ci_szDecimals = Some 2, ci_maxLeverage = Some 50\<rparr>"

definition exampleMarket :: market_env where
  "exampleMarket = \<lparr>m_coinInfo = Inr \<lparr>ci_szDecimals = Some 4, ci_maxLeverage = Some 50\<rparr>,
     m_leverage = Inr (Some 20), m_allMids = Inr [''BTC'' \<mapsto> 25000],
     m_balance = Inr (Some (19 / 10)), m_accountValue = Inr (19 / 10),
     m_takerFeeRate = 45 / 100000\<rparr>"

definition exampleEmptyAccount :: market_env where
  "exampleEmptyAccount = exampleMarket\<lparr>m_balance := Inr (Some 0), m_accountValue := Inr 0\<rparr>"





section \<open>Properties of the trade fee\<close>

lemma normalize_market: "toLowerCase (trim ''market'') = ''market''"
  by code_simp

lemma normalize_limit: "toLowerCase (trim ''limit'') = ''limit''"
  by code_simp

lemma normalize_gtc: "toLowerCase (trim ''Gtc'') = ''gtc''"
  by code_simp

lemma normalize_ioc: "toLowerCase (trim ''Ioc'') = ''ioc''"
  by code_simp

lemma normalize_stop_loss: "toLowerCase (trim ''stop_loss'') = ''stop_loss''"
  by code_simp

lemma normalize_take_profit: "toLowerCase (trim ''take_profit'') = ''take_profit''"
  by code_simp

lemma normalize_empty: "toLowerCase (trim []) = []"
  by (simp add: toLowerCase_def trim_def)

lemma normalize_alo: "toLowerCase (trim ''Alo'') = ''alo''"
  by code_simp

lemma normalize_alo_padded: "toLowerCase (trim '' ALO '') = ''alo''"
  by code_simp

text \<open>
  C10. For every size, price and order type, \<open>calculateTradeFee\<close> returns
  \<open>fee = size * price * feeRate\<close>; the rate is the maker rate exactly when the trimmed,
  lower-cased order type is \<open>alo\<close>, and the taker rate for every other order type, among
  them \<open>market\<close>, \<open>limit\<close>, \<open>Gtc\<close>, \<open>Ioc\<close>, \<open>stop_loss\<close> and \<open>take_profit\<close>.
\<close>

theorem calculateTradeFee_taker_unless_alo:
  "fee (calculateTradeFee this sz px ty) = sz * px * feeRate (calculateTradeFee this sz px ty) \<and>
   feeRate (calculateTradeFee this sz px ty) =
     (if toLowerCase (trim (case ty of None \<Rightarrow> [] | Some s \<Rightarrow> s)) = ''alo''
      then makerFeeRate this else takerFeeRate this) \<and>
   feeRate (calculateTradeFee this sz px (Some ''market'')) = takerFeeRate this \<and>
   feeRate (calculateTradeFee this sz px (Some ''limit'')) = takerFeeRate this \<and>
   feeRate (calculateTradeFee this sz px (Some ''Gtc'')) = takerFeeRate this \<and>
   feeRate (calculateTradeFee this sz px (Some ''Ioc'')) = takerFeeRate this \<and>
   feeRate (calculateTradeFee this sz px (Some ''stop_loss'')) = takerFeeRate this \<and>
   feeRate (calculateTradeFee this sz px (Some ''take_profit'')) = takerFeeRate this \<and>
   feeRate (calculateTradeFee this sz px None) = takerFeeRate this \<and>
   feeRate (calculateTradeFee this sz px (Some ''Alo'')) = makerFeeRate this \<and>
   feeRate (calculateTradeFee this sz px (Some '' ALO '')) = makerFeeRate this"
  by (simp add: calculateTradeFee_def Let_def normalize_market normalize_limit normalize_gtc
      normalize_ioc normalize_stop_loss normalize_take_profit normalize_alo normalize_alo_padded
      normalize_empty)

section \<open>Properties of the retry loop\<close>

lemma retry_loop_props:
  "attempt \<le> m \<Longrightarrow>
   1 \<le> invocations (retry_loop fn m b attempt le) \<and>
   attempt + invocations (retry_loop fn m b attempt le) \<le> m + 1 \<and>
   delays (retry_loop fn m b attempt le) =
     map (\<lambda>k. b * 2 ^ k) [attempt ..< attempt + invocations (retry_loop fn m b attempt le) - 1] \<and>
   (\<forall>k. attempt \<le> k \<and> k < attempt + invocations (retry_loop fn m b attempt le) - 1 \<longrightarrow>
        (\<exists>e. fn k = Inl e \<and> rateLimited e)) \<and>
   outcome (retry_loop fn m b attempt le) =
     (case fn (attempt + invocations (retry_loop fn m b attempt le) - 1) of
        Inr v \<Rightarrow> Returned v | Inl e \<Rightarrow> Thrown (Some e)) \<and>
   ((\<exists>e. fn (attempt + invocations (retry_loop fn m b attempt le) - 1) = Inl e \<and> rateLimited e)
      \<longrightarrow> attempt + invocations (retry_loop fn m b attempt le) = m + 1)"
proof (induction fn m b attempt le rule: retry_loop.induct)
  case (1 fn m b attempt le)
  show ?case
  proof (cases "fn attempt")
    case (Inr v)
    with 1 show ?thesis by auto
  next
    case (Inl err)
    show ?thesis
    proof (cases "rateLimited err \<and> attempt < m")
      case False
      with 1 Inl show ?thesis by auto
    next
      case True
      then have lt: "attempt < m" and rl: "rateLimited err" by simp_all
      define r where "r = retry_loop fn m b (attempt + 1) (Some err)"
      have IH: "1 \<le> invocations r \<and> attempt + 1 + invocations r \<le> m + 1 \<and>
        delays r = map (\<lambda>k. b * 2 ^ k) [attempt + 1 ..< attempt + 1 + invocations r - 1] \<and>
        (\<forall>k. attempt + 1 \<le> k \<and> k < attempt + 1 + invocations r - 1 \<longrightarrow>
        (\<exists>e. fn k = Inl e \<and> rateLimited e)) \<and>
        outcome r = (case fn (attempt + 1 + invocations r - 1) of
        Inr v \<Rightarrow> Returned v | Inl e \<Rightarrow> Thrown (Some e)) \<and>
        ((\<exists>e. fn (attempt + 1 + invocations r - 1) = Inl e \<and> rateLimited e)
           \<longrightarrow> attempt + 1 + invocations r = m + 1)"
        unfolding r_def using "1.IH"[OF "1.prems" Inl rl lt refl] lt by simp
      have eq: "retry_loop fn m b attempt le =
          r\<lparr>invocations := invocations r + 1, delays := (b * 2 ^ attempt) # delays r\<rparr>"
        using "1.prems" Inl rl lt by (subst retry_loop.simps) (simp add: r_def Let_def)
      have up: "[attempt ..< attempt + invocations r] =
          attempt # [attempt + 1 ..< attempt + invocations r]"
        using IH by (simp add: upt_conv_Cons)
      have k: "\<exists>e. fn k = Inl e \<and> rateLimited e"
        if "attempt \<le> k" "k < attempt + invocations r" for k
      proof -
        from that consider "k = attempt"
          | "attempt + 1 \<le> k \<and> k < attempt + 1 + invocations r - 1" by force
        then show ?thesis using Inl rl IH by cases auto
      qed
      show ?thesis
        unfolding eq using IH up k by (simp add: add.commute add.left_commute)
    qed
  qed
qed

text \<open>
  C9. \<open>retryWithBackoff\<close> invokes the wrapped function at most \<open>maxRetries + 1\<close> times.
  It goes on to the next invocation only after an error whose text carries a rate-limit
  signal, and sleeps \<open>baseDelay * 2 ^ attempt\<close> before it: when the invocations before
  number \<open>k\<close> all threw rate-limit errors, and invocation \<open>k\<close> returns, throws another
  error, or is the last permitted one (\<open>k = maxRetries\<close>), the run makes exactly \<open>k + 1\<close>
  invocations, sleeps the doubling delays between them, and returns the value or rethrows the
  error of invocation \<open>k\<close>.
\<close>

theorem retryWithBackoff_bounded_rate_limit_retry:
  "invocations (retryWithBackoff fn maxRetries baseDelay) \<le> maxRetries + 1 \<and>
   (\<forall>k. k \<le> maxRetries \<and> (\<forall>j<k. \<exists>e. fn j = Inl e \<and> rateLimited e) \<and>
        (k = maxRetries \<or> \<not> (\<exists>e. fn k = Inl e \<and> rateLimited e)) \<longrightarrow>
        invocations (retryWithBackoff fn maxRetries baseDelay) = k + 1 \<and>
        delays (retryWithBackoff fn maxRetries baseDelay) = map (\<lambda>j. baseDelay * 2 ^ j) [0..<k] \<and>
        outcome (retryWithBackoff fn maxRetries baseDelay) =
          (case fn k of Inr v \<Rightarrow> Returned v | Inl e \<Rightarrow> Thrown (Some e)))"
proof -
  let ?r = "retryWithBackoff fn maxRetries baseDelay"
  let ?n = "invocations ?r - 1"
  have P: "1 \<le> invocations ?r" "invocations ?r \<le> maxRetries + 1"
    "delays ?r = map (\<lambda>k. baseDelay * 2 ^ k) [0 ..< ?n]"
    "\<forall>k. k < ?n \<longrightarrow> (\<exists>e. fn k = Inl e \<and> rateLimited e)"
    "outcome ?r = (case fn ?n of Inr v \<Rightarrow> Returned v | Inl e \<Rightarrow> Thrown (Some e))"
    "(\<exists>e. fn ?n = Inl e \<and> rateLimited e) \<longrightarrow> invocations ?r = maxRetries + 1"
    using retry_loop_props[of 0 maxRetries fn baseDelay None]
    by (simp_all add: retryWithBackoff_def)
  have K: "?n = k"
    if k: "k \<le> maxRetries" "\<forall>j<k. \<exists>e. fn j = Inl e \<and> rateLimited e"
      "k = maxRetries \<or> \<not> (\<exists>e. fn k = Inl e \<and> rateLimited e)" for k
  proof (rule ccontr)
    assume "?n \<noteq> k"
    then consider "k < ?n" | "?n < k" by linarith
    then show False
    proof cases
      case 1
      then have "\<exists>e. fn k = Inl e \<and> rateLimited e" using P(4) by blast
      with k(3) have "k = maxRetries" by blast
      with 1 P(2) show False by simp
    next
      case 2
      then have "\<exists>e. fn ?n = Inl e \<and> rateLimited e" using k(2) by blast
      with P(6) have "invocations ?r = maxRetries + 1" by blast
      with 2 k(1) show False by simp
    qed
  qed
  show ?thesis
  proof (intro conjI allI impI)
    show "invocations ?r \<le> maxRetries + 1" by (rule P(2))
  next
    fix k
    assume a: "k \<le> maxRetries \<and> (\<forall>j<k. \<exists>e. fn j = Inl e \<and> rateLimited e) \<and>
        (k = maxRetries \<or> \<not> (\<exists>e. fn k = Inl e \<and> rateLimited e))"
    then have n: "?n = k" using K by blast
    show "invocations ?r = k + 1" using n P(1) by simp
    show "delays ?r = map (\<lambda>j. baseDelay * 2 ^ j) [0..<k]" using n P(3) by simp
    show "outcome ?r = (case fn k of Inr v \<Rightarrow> Returned v | Inl e \<Rightarrow> Thrown (Some e))"
      using n P(5) by simp
  qed
qed

lemma exampleFn_rateLimited: "rateLimited ''Error: 429 Too Many Requests''"
  by (simp add: rateLimited_def)

text \<open>
  Two rate-limit errors and then a value, with three retries allowed and a base delay of
  1000 ms: three invocations, delays of 1000 and 2000 ms, the value returned.
\<close>

theorem retryWithBackoff_bounded_rate_limit_retry_witness:
  "(2::nat) \<le> 3 \<and> (\<exists>e. exampleFn 0 = Inl e \<and> rateLimited e) \<and>
   (\<exists>e. exampleFn 1 = Inl e \<and> rateLimited e) \<and>
   \<not> (\<exists>e. exampleFn 2 = Inl e \<and> rateLimited e) \<and>
   invocations (retryWithBackoff exampleFn 3 1000) = 3 \<and>
   delays (retryWithBackoff exampleFn 3 1000) = [1000, 2000] \<and>
   outcome (retryWithBackoff exampleFn 3 1000) = Returned 7"
proof -
  have h1: "\<forall>j<2. \<exists>e. exampleFn j = Inl e \<and> rateLimited e"
    using exampleFn_rateLimited by (simp add: exampleFn_def)
  have h2: "\<not> (\<exists>e. exampleFn 2 = Inl e \<and> rateLimited e)"
    by (simp add: exampleFn_def)
  have u: "[0..<2] = [0, Suc 0]" by (simp add: upt_conv_Cons)
  have "(2::nat) \<le> 3 \<and> (\<forall>j<2. \<exists>e. exampleFn j = Inl e \<and> rateLimited e) \<and>
        ((2::nat) = 3 \<or> \<not> (\<exists>e. exampleFn 2 = Inl e \<and> rateLimited e))"
    using h1 h2 by simp
  with retryWithBackoff_bounded_rate_limit_retry[of exampleFn 3 1000]
  have "invocations (retryWithBackoff exampleFn 3 1000) = 2 + 1 \<and>
        delays (retryWithBackoff exampleFn 3 1000) = map (\<lambda>j. 1000 * 2 ^ j) [0..<2] \<and>
        outcome (retryWithBackoff exampleFn 3 1000) =
          (case exampleFn 2 of Inr v \<Rightarrow> Returned v | Inl e \<Rightarrow> Thrown (Some e))"
    by blast
  then show ?thesis using h1 h2 exampleFn_rateLimited by (simp add: exampleFn_def u)
qed

section \<open>Properties of the position ledger\<close>

lemma capLast_snoc_last: "last (capLast n (xs @ [x])) = x"
  by (simp add: capLast_def)

lemma calculatePnl_net:
  "exit p = Some ex \<Longrightarrow>
   \<exists>r. calculatePnl p = Some r \<and>
     gross r = (if l_side (entry p) = ''buy''
                then (l_price ex - l_price (entry p)) * l_size ex
                else (l_price (entry p) - l_price ex) * l_size ex) \<and>
     net r = gross r - (l_fee (entry p) + l_fee ex)"
  by (simp add: calculatePnl_def Let_def)

text \<open>
  C3. For a closed position whose entry price and entry size are positive (as every
  position opened through \<open>openPosition\<close> has them), the PnL is
  \<open>gross = (exitPrice - entryPrice) * exitSize\<close> for a long (entry side \<open>buy\<close>) and
  \<open>(entryPrice - exitPrice) * exitSize\<close> for a short, \<open>net = gross - (entryFee + exitFee)\<close>
  and \<open>percent = net / (entryPrice * entrySize) * 100\<close>. A long of size 1 opened at 100
  with entry fee 0.05 and closed at 110 with exit fee 0.055 has gross 10, net 9.895 and
  percent 9.895.
\<close>

theorem calculatePnl_gross_net_percent:
  "(exit p = Some ex \<and> 0 < l_price (entry p) \<and> 0 < l_size (entry p) \<longrightarrow>
      (\<exists>r. calculatePnl p = Some r \<and>
         gross r = (if l_side (entry p) = ''buy''
                    then (l_price ex - l_price (entry p)) * l_size ex
                    else (l_price (entry p) - l_price ex) * l_size ex) \<and>
         net r = gross r - (l_fee (entry p) + l_fee ex) \<and>
         percent r = net r / (l_price (entry p) * l_size (entry p)) * 100)) \<and>
   (map_of (openPositions this) c = None \<longrightarrow>
      (\<exists>cl r this'.
         closePosition (snd (openPosition this t0 c ''buy'' 1 100 ot oid (5 / 100) fr))
           t1 c ''sell'' 1 110 ot' oid' (55 / 1000) fr' = (Some cl, this') \<and>
         pnl cl = Some r \<and> gross r = 10 \<and> net r = 9895 / 1000 \<and> percent r = 9895 / 1000))"
proof (intro conjI impI)
  assume "exit p = Some ex \<and> 0 < l_price (entry p) \<and> 0 < l_size (entry p)"
  then show "\<exists>r. calculatePnl p = Some r \<and>
         gross r = (if l_side (entry p) = ''buy''
                    then (l_price ex - l_price (entry p)) * l_size ex
                    else (l_price (entry p) - l_price ex) * l_size ex) \<and>
         net r = gross r - (l_fee (entry p) + l_fee ex) \<and>
         percent r = net r / (l_price (entry p) * l_size (entry p)) * 100"
    by (simp add: calculatePnl_def Let_def)
next
  assume "map_of (openPositions this) c = None"
  then show "\<exists>cl r this'.
         closePosition (snd (openPosition this t0 c ''buy'' 1 100 ot oid (5 / 100) fr))
           t1 c ''sell'' 1 110 ot' oid' (55 / 1000) fr' = (Some cl, this') \<and>
         pnl cl = Some r \<and> gross r = 10 \<and> net r = 9895 / 1000 \<and> percent r = 9895 / 1000"
    by (simp add: openPosition_def closePosition_def Let_def logTrade_def update_conv'
        calculatePnl_def saveHistory_def)
qed

text \<open>
  The example long of size 2 entered at 100 with entry fee 0.1, closed at 110 with exit
  fee 0.11; and the scenario of the claim on the empty ledger.
\<close>

theorem calculatePnl_gross_net_percent_witness:
  "exit (examplePosition\<lparr>exit := Some exampleExit\<rparr>) = Some exampleExit \<and>
   0 < l_price (entry (examplePosition\<lparr>exit := Some exampleExit\<rparr>)) \<and>
   0 < l_size (entry (examplePosition\<lparr>exit := Some exampleExit\<rparr>)) \<and>
   (\<exists>r. calculatePnl (examplePosition\<lparr>exit := Some exampleExit\<rparr>) = Some r \<and>
        gross r = 20 \<and> net r = 1979 / 100 \<and> percent r = 9895 / 1000) \<and>
   map_of (openPositions exampleTracker) ''BTC'' = None \<and>
   (\<exists>cl r this'.
      closePosition (snd (openPosition exampleTracker 1 ''BTC'' ''buy'' 1 100 ''Ioc'' ''7'' (5 / 100) 0))
        2 ''BTC'' ''sell'' 1 110 ''Ioc'' ''8'' (55 / 1000) 0 = (Some cl, this') \<and>
      pnl cl = Some r \<and> gross r = 10 \<and> net r = 9895 / 1000 \<and> percent r = 9895 / 1000)"
proof -
  let ?p = "examplePosition\<lparr>exit := Some exampleExit\<rparr>"
  have h: "exit ?p = Some exampleExit \<and> 0 < l_price (entry ?p) \<and> 0 < l_size (entry ?p)"
    by (simp add: examplePosition_def)
  have e: "map_of (openPositions exampleTracker) ''BTC'' = None"
    by (simp add: exampleTracker_def)
  note T = calculatePnl_gross_net_percent[of ?p exampleExit exampleTracker "''BTC''"
      1 "''Ioc''" "''7''" 0 2 "''Ioc''" "''8''" 0]
  from T h have "\<exists>r. calculatePnl ?p = Some r \<and>
         gross r = (if l_side (entry ?p) = ''buy''
                    then (l_price exampleExit - l_price (entry ?p)) * l_size exampleExit
                    else (l_price (entry ?p) - l_price exampleExit) * l_size exampleExit) \<and>
         net r = gross r - (l_fee (entry ?p) + l_fee exampleExit) \<and>
         percent r = net r / (l_price (entry ?p) * l_size (entry ?p)) * 100"
    by blast
  then have a: "\<exists>r. calculatePnl ?p = Some r \<and>
        gross r = 20 \<and> net r = 1979 / 100 \<and> percent r = 9895 / 1000"
    by (auto simp: examplePosition_def exampleExit_def)
  from T e have b: "\<exists>cl r this'.
      closePosition (snd (openPosition exampleTracker 1 ''BTC'' ''buy'' 1 100 ''Ioc'' ''7'' (5 / 100) 0))
        2 ''BTC'' ''sell'' 1 110 ''Ioc'' ''8'' (55 / 1000) 0 = (Some cl, this') \<and>
      pnl cl = Some r \<and> gross r = 10 \<and> net r = 9895 / 1000 \<and> percent r = 9895 / 1000"
    by blast
  show ?thesis using h e a b by blast
qed

lemma closePosition_partial_result:
  assumes pos: "map_of (openPositions this) c = Some pos"
    and A: "0 < A" and px: "0 < px" and lt: "A < l_size (entry pos)"
  shows "closePosition this now c sd A px ot oid fe fr =
     (Some (pos\<lparr>positionId := PartialId (positionId pos) now,
                entry := (entry pos)\<lparr>l_size := A,
                           l_fee := l_fee (entry pos) * (A / l_size (entry pos))\<rparr>,
                exit := Some \<lparr>l_side = sd, l_size = A, l_price = px, l_fee = fe,
                              l_feeRate = fr, l_orderType = ot, l_orderId = oid,
                              l_timestamp = now\<rparr>,
                pnl := calculatePnl (pos\<lparr>positionId := PartialId (positionId pos) now,
                        entry := (entry pos)\<lparr>l_size := A,
                                   l_fee := l_fee (entry pos) * (A / l_size (entry pos))\<rparr>,
                        exit := Some \<lparr>l_side = sd, l_size = A, l_price = px, l_fee = fe,
                                      l_feeRate = fr, l_orderType = ot, l_orderId = oid,
                                      l_timestamp = now\<rparr>\<rparr>),
                status := ''closed'', closedAt := Some now, updatedAt := now\<rparr>),
      snd (closePosition this now c sd A px ot oid fe fr))"
  using assms by (simp add: closePosition_def Let_def min_def)

lemma closePosition_partial_open:
  assumes pos: "map_of (openPositions this) c = Some pos"
    and A: "0 < A" and px: "0 < px" and lt: "A < l_size (entry pos)"
  shows "map_of (openPositions (snd (closePosition this now c sd A px ot oid fe fr))) c =
     Some (pos\<lparr>entry := (entry pos)\<lparr>l_size := l_size (entry pos) - A,
                   l_fee := l_fee (entry pos) * ((l_size (entry pos) - A) / l_size (entry pos))\<rparr>,
                updatedAt := now\<rparr>)"
    and "last (closedPositions (snd (closePosition this now c sd A px ot oid fe fr))) =
         the (fst (closePosition this now c sd A px ot oid fe fr))"
  using assms
  by (simp_all add: closePosition_def Let_def min_def logTrade_def saveHistory_def update_conv'
      capLast_snoc_last)

lemma closePosition_full_result:
  assumes pos: "map_of (openPositions this) c = Some pos"
    and A: "0 < A" and px: "0 < px" and ge: "l_size (entry pos) \<le> A"
  shows "fst (closePosition this now c sd A px ot oid fe fr) =
     Some (pos\<lparr>exit := Some \<lparr>l_side = sd, l_size = l_size (entry pos), l_price = px, l_fee = fe,
                              l_feeRate = fr, l_orderType = ot, l_orderId = oid,
                              l_timestamp = now\<rparr>,
                pnl := calculatePnl (pos\<lparr>exit := Some \<lparr>l_side = sd,
                                      l_size = l_size (entry pos), l_price = px, l_fee = fe,
                                      l_feeRate = fr, l_orderType = ot, l_orderId = oid,
                                      l_timestamp = now\<rparr>\<rparr>),
                status := ''closed'', closedAt := Some now, updatedAt := now\<rparr>)"
   and "map_of (openPositions (snd (closePosition this now c sd A px ot oid fe fr))) c = None"
   and "last (closedPositions (snd (closePosition this now c sd A px ot oid fe fr))) =
         the (fst (closePosition this now c sd A px ot oid fe fr))"
  using assms
  by (simp_all add: closePosition_def Let_def min_def logTrade_def saveHistory_def delete_conv'
      capLast_snoc_last)

lemma two_step_close:
  assumes pos: "map_of (openPositions this) c = Some pos"
    and A: "0 < A" and px: "0 < px" and B: "0 < B" and p2: "0 < p2"
    and S: "A + B = l_size (entry pos)"
  shows "\<exists>c1 t1 c2 t2 cf tf r1 r2 rf.
       closePosition this n1 c sd A px ot oid fe fr = (Some c1, t1) \<and>
       closePosition t1 n2 c sd2 B p2 ot2 oid2 fe2 fr2 = (Some c2, t2) \<and>
       closePosition this n3 c sd3 (A + B) ((px * A + p2 * B) / (A + B)) ot3 oid3 (fe + fe2) fr3
         = (Some cf, tf) \<and>
       pnl c1 = Some r1 \<and> pnl c2 = Some r2 \<and> pnl cf = Some rf \<and>
       net r1 + net r2 = net rf \<and> gross r1 + gross r2 = gross rf \<and>
       map_of (openPositions t2) c = None \<and> map_of (openPositions tf) c = None"
proof -
  let ?S = "l_size (entry pos)" and ?F = "l_fee (entry pos)" and ?e = "l_price (entry pos)"
  let ?pb = "(px * A + p2 * B) / (A + B)"
  have Spos: "0 < ?S" and lt: "A < ?S" and SA: "?S - A = B" using A B S by simp_all
  have AB: "0 < A + B" using A B by simp
  have nz: "A + B \<noteq> 0" using AB by simp
  have pb: "0 < ?pb" using A B px p2 by (simp add: pos_add_strict)
  have geS: "?S \<le> A + B" using S by simp
  have fees: "F * (A / (A + B)) + F * (B / (A + B)) = F" for F :: real
    using nz by (simp add: distrib_left[symmetric] add_divide_distrib[symmetric])
  have g1: "(?pb - e) * (A + B) = (px - e) * A + (p2 - e) * B" for e
    using nz by (simp add: field_simps)
  have g2: "(e - ?pb) * (A + B) = (e - px) * A + (e - p2) * B" for e
    using nz by (simp add: field_simps)
  define t1 where "t1 = snd (closePosition this n1 c sd A px ot oid fe fr)"
  define pos' where "pos' = pos\<lparr>entry := (entry pos)\<lparr>l_size := ?S - A,
                   l_fee := ?F * ((?S - A) / ?S)\<rparr>, updatedAt := n1\<rparr>"
  have o1: "map_of (openPositions t1) c = Some pos'"
    unfolding t1_def pos'_def by (rule closePosition_partial_open(1)[OF pos A px lt])
  have sz': "l_size (entry pos') \<le> B" using S by (simp add: pos'_def)
  define x1 where "x1 = \<lparr>l_side = sd, l_size = A, l_price = px, l_fee = fe,
       l_feeRate = fr, l_orderType = ot, l_orderId = oid, l_timestamp = n1\<rparr>"
  define q1 where "q1 = pos\<lparr>positionId := PartialId (positionId pos) n1,
       entry := (entry pos)\<lparr>l_size := A, l_fee := ?F * (A / ?S)\<rparr>, exit := Some x1\<rparr>"
  define x2 where "x2 = \<lparr>l_side = sd2, l_size = l_size (entry pos'), l_price = p2, l_fee = fe2,
       l_feeRate = fr2, l_orderType = ot2, l_orderId = oid2, l_timestamp = n2\<rparr>"
  define q2 where "q2 = pos'\<lparr>exit := Some x2\<rparr>"
  define x3 where "x3 = \<lparr>l_side = sd3, l_size = ?S, l_price = ?pb, l_fee = fe + fe2,
       l_feeRate = fr3, l_orderType = ot3, l_orderId = oid3, l_timestamp = n3\<rparr>"
  define q3 where "q3 = pos\<lparr>exit := Some x3\<rparr>"
  define c1 where "c1 = q1\<lparr>pnl := calculatePnl q1, status := ''closed'', closedAt := Some n1, updatedAt := n1\<rparr>"
  define c2 where "c2 = q2\<lparr>pnl := calculatePnl q2, status := ''closed'', closedAt := Some n2, updatedAt := n2\<rparr>"
  define cf where "cf = q3\<lparr>pnl := calculatePnl q3, status := ''closed'', closedAt := Some n3, updatedAt := n3\<rparr>"
  define t2 where "t2 = snd (closePosition t1 n2 c sd2 B p2 ot2 oid2 fe2 fr2)"
  define tf where "tf = snd (closePosition this n3 c sd3 (A + B) ?pb ot3 oid3 (fe + fe2) fr3)"
  have e1: "closePosition this n1 c sd A px ot oid fe fr = (Some c1, t1)"
    using closePosition_partial_result[OF pos A px lt, of n1 sd ot oid fe fr]
    by (simp add: c1_def q1_def x1_def t1_def)
  have e2: "closePosition t1 n2 c sd2 B p2 ot2 oid2 fe2 fr2 = (Some c2, t2)"
    using closePosition_full_result(1)[OF o1 B p2 sz', of n2 sd2 ot2 oid2 fe2 fr2]
    by (simp add: c2_def q2_def x2_def t2_def prod_eq_iff)
  have e3: "closePosition this n3 c sd3 (A + B) ?pb ot3 oid3 (fe + fe2) fr3 = (Some cf, tf)"
    using closePosition_full_result(1)[OF pos AB pb geS, of n3 sd3 ot3 oid3 "fe + fe2" fr3]
    by (simp add: cf_def q3_def x3_def tf_def prod_eq_iff)
  have n2: "map_of (openPositions t2) c = None"
    unfolding t2_def by (rule closePosition_full_result(2)[OF o1 B p2 sz'])
  have nf: "map_of (openPositions tf) c = None"
    unfolding tf_def by (rule closePosition_full_result(2)[OF pos AB pb geS])
  obtain r1 where r1: "calculatePnl q1 = Some r1"
      "gross r1 = (if l_side (entry pos) = ''buy'' then (px - ?e) * A else (?e - px) * A)"
      "net r1 = gross r1 - (?F * (A / ?S) + fe)"
    using calculatePnl_net[of q1 x1] by (auto simp: q1_def x1_def)
  obtain r2 where r2: "calculatePnl q2 = Some r2"
      "gross r2 = (if l_side (entry pos) = ''buy'' then (p2 - ?e) * B else (?e - p2) * B)"
      "net r2 = gross r2 - (?F * (B / ?S) + fe2)"
    using calculatePnl_net[of q2 x2] SA by (auto simp: q2_def x2_def pos'_def)
  obtain rf where rf: "calculatePnl q3 = Some rf"
      "gross rf = (if l_side (entry pos) = ''buy'' then (?pb - ?e) * ?S else (?e - ?pb) * ?S)"
      "net rf = gross rf - (?F + (fe + fe2))"
    using calculatePnl_net[of q3 x3] by (auto simp: q3_def x3_def)
  have gr: "gross r1 + gross r2 = gross rf"
    using r1(2) r2(2) rf(2) g1[of ?e] g2[of ?e] S by simp
  have nt: "net r1 + net r2 = net rf"
    using r1(3) r2(3) rf(3) gr fees[of ?F] S by simp
  have p1: "pnl c1 = Some r1" and p2': "pnl c2 = Some r2" and pf: "pnl cf = Some rf"
    using r1(1) r2(1) rf(1) by (simp_all add: c1_def c2_def cf_def)
  show ?thesis
    using e1 e2 e3 p1 p2' pf nt gr n2 nf by blast
qed

lemma closePosition_clamped:
  assumes pos: "map_of (openPositions this) c = Some pos" and A: "0 < A" and px: "0 < px"
  shows "\<exists>cl ex this'.
       closePosition this now c sd A px ot oid fe fr = (Some cl, this') \<and>
       exit cl = Some ex \<and> l_size ex = min A (l_size (entry pos)) \<and>
       last (closedPositions this') = cl \<and>
       (min A (l_size (entry pos)) < l_size (entry pos) \<longrightarrow>
          status cl = ''closed'' \<and>
          l_size (entry cl) = min A (l_size (entry pos)) \<and>
          l_fee (entry cl) =
            l_fee (entry pos) * (min A (l_size (entry pos)) / l_size (entry pos)) \<and>
          map_of (openPositions this') c =
            Some (pos\<lparr>entry := (entry pos)
                        \<lparr>l_size := l_size (entry pos) - min A (l_size (entry pos)),
                         l_fee := l_fee (entry pos) *
                           ((l_size (entry pos) - min A (l_size (entry pos))) / l_size (entry pos))\<rparr>,
                       updatedAt := now\<rparr>))"
proof (cases "A < l_size (entry pos)")
  case True
  then have m: "min A (l_size (entry pos)) = A" by simp
  show ?thesis
    unfolding m using pos A px True
    by (simp add: closePosition_def Let_def min_def logTrade_def saveHistory_def update_conv'
        capLast_snoc_last)
next
  case False
  then have m: "min A (l_size (entry pos)) = l_size (entry pos)" by simp
  show ?thesis
    unfolding m using pos A px False
    by (simp add: closePosition_def Let_def min_def logTrade_def saveHistory_def delete_conv'
        capLast_snoc_last)
qed

text \<open>
  C4. Closing a requested size \<open>A > 0\<close> of an open position of size \<open>S\<close> closes
  \<open>min A S\<close>. When that is less than \<open>S\<close>, the closed portion is archived (it is the
  last record of the history) with the entry fee scaled by the closed fraction, and the
  position stays open with size \<open>S\<close> minus the closed size and its entry fee scaled by the
  remaining fraction. Closing \<open>A\<close> and then \<open>B\<close> with \<open>A + B = S\<close> gives two records whose
  net PnLs add up to the net PnL of one full close of \<open>S\<close> at the size-weighted exit price
  with the two exit fees added (exactly, the arithmetic being exact here).
\<close>

theorem closePosition_partial_close:
  assumes pos: "map_of (openPositions this) c = Some pos" and A: "0 < A" and px: "0 < px"
  shows "(\<exists>cl ex this'.
       closePosition this now c sd A px ot oid fe fr = (Some cl, this') \<and>
       exit cl = Some ex \<and> l_size ex = min A (l_size (entry pos)) \<and>
       last (closedPositions this') = cl \<and>
       (min A (l_size (entry pos)) < l_size (entry pos) \<longrightarrow>
          status cl = ''closed'' \<and>
          l_size (entry cl) = min A (l_size (entry pos)) \<and>
          l_fee (entry cl) =
            l_fee (entry pos) * (min A (l_size (entry pos)) / l_size (entry pos)) \<and>
          map_of (openPositions this') c =
            Some (pos\<lparr>entry := (entry pos)
                        \<lparr>l_size := l_size (entry pos) - min A (l_size (entry pos)),
                         l_fee := l_fee (entry pos) *
                           ((l_size (entry pos) - min A (l_size (entry pos))) / l_size (entry pos))\<rparr>,
                       updatedAt := now\<rparr>))) \<and>
     (\<forall>B p2 :: real. 0 < B \<and> 0 < p2 \<and> A + B = l_size (entry pos) \<longrightarrow>
        (\<exists>c1 t1 c2 t2 cf tf r1 r2 rf.
           closePosition this now c sd A px ot oid fe fr = (Some c1, t1) \<and>
           closePosition t1 n2 c sd2 B p2 ot2 oid2 fe2 fr2 = (Some c2, t2) \<and>
           closePosition this n3 c sd3 (A + B) ((px * A + p2 * B) / (A + B)) ot3 oid3 (fe + fe2) fr3
             = (Some cf, tf) \<and>
           pnl c1 = Some r1 \<and> pnl c2 = Some r2 \<and> pnl cf = Some rf \<and>
           net r1 + net r2 = net rf \<and> gross r1 + gross r2 = gross rf \<and>
           map_of (openPositions t2) c = None \<and> map_of (openPositions tf) c = None))"
proof (intro conjI allI impI)
  show "\<exists>cl ex this'.
       closePosition this now c sd A px ot oid fe fr = (Some cl, this') \<and>
       exit cl = Some ex \<and> l_size ex = min A (l_size (entry pos)) \<and>
       last (closedPositions this') = cl \<and>
       (min A (l_size (entry pos)) < l_size (entry pos) \<longrightarrow>
          status cl = ''closed'' \<and>
          l_size (entry cl) = min A (l_size (entry pos)) \<and>
          l_fee (entry cl) =
            l_fee (entry pos) * (min A (l_size (entry pos)) / l_size (entry pos)) \<and>
          map_of (openPositions this') c =
            Some (pos\<lparr>entry := (entry pos)
                        \<lparr>l_size := l_size (entry pos) - min A (l_size (entry pos)),
                         l_fee := l_fee (entry pos) *
                           ((l_size (entry pos) - min A (l_size (entry pos))) / l_size (entry pos))\<rparr>,
                       updatedAt := now\<rparr>))"
    by (rule closePosition_clamped[OF pos A px])
next
  fix B p2 :: real
  assume "0 < B \<and> 0 < p2 \<and> A + B = l_size (entry pos)"
  then have B: "0 < B" and p2: "0 < p2" and S: "A + B = l_size (entry pos)" by simp_all
  show "\<exists>c1 t1 c2 t2 cf tf r1 r2 rf.
           closePosition this now c sd A px ot oid fe fr = (Some c1, t1) \<and>
           closePosition t1 n2 c sd2 B p2 ot2 oid2 fe2 fr2 = (Some c2, t2) \<and>
           closePosition this n3 c sd3 (A + B) ((px * A + p2 * B) / (A + B)) ot3 oid3 (fe + fe2) fr3
             = (Some cf, tf) \<and>
           pnl c1 = Some r1 \<and> pnl c2 = Some r2 \<and> pnl cf = Some rf \<and>
           net r1 + net r2 = net rf \<and> gross r1 + gross r2 = gross rf \<and>
           map_of (openPositions t2) c = None \<and> map_of (openPositions tf) c = None"
    by (rule two_step_close[OF pos A px B p2 S])
qed

text \<open>
  The example position (size 2, entry fee 0.1) closed in steps of 0.5 at 110 and 1.5 at
  120.
\<close>

theorem closePosition_partial_close_witness:
  "map_of (openPositions (exampleTracker\<lparr>openPositions := [(''BTC'', examplePosition)]\<rparr>)) ''BTC''
     = Some examplePosition \<and> (0::real) < 1 / 2 \<and> (0::real) < 110 \<and>
   (0::real) < 3 / 2 \<and> (0::real) < 120 \<and> 1 / 2 + 3 / 2 = l_size (entry examplePosition) \<and>
   (\<exists>c1 t1 c2 t2 cf tf r1 r2 rf.
      closePosition (exampleTracker\<lparr>openPositions := [(''BTC'', examplePosition)]\<rparr>)
        2 ''BTC'' ''sell'' (1 / 2) 110 ''Ioc'' ''8'' (1 / 50) 0 = (Some c1, t1) \<and>
      closePosition t1 3 ''BTC'' ''sell'' (3 / 2) 120 ''Ioc'' ''9'' (3 / 50) 0 = (Some c2, t2) \<and>
      closePosition (exampleTracker\<lparr>openPositions := [(''BTC'', examplePosition)]\<rparr>)
        3 ''BTC'' ''sell'' (1 / 2 + 3 / 2) ((110 * (1 / 2) + 120 * (3 / 2)) / (1 / 2 + 3 / 2))
        ''Ioc'' ''9'' (1 / 50 + 3 / 50) 0 = (Some cf, tf) \<and>
      pnl c1 = Some r1 \<and> pnl c2 = Some r2 \<and> pnl cf = Some rf \<and>
      net r1 + net r2 = net rf \<and> gross r1 + gross r2 = gross rf \<and>
      map_of (openPositions t2) ''BTC'' = None \<and> map_of (openPositions tf) ''BTC'' = None)"
proof -
  let ?T = "exampleTracker\<lparr>openPositions := [(''BTC'', examplePosition)]\<rparr>"
  have h1: "map_of (openPositions ?T) ''BTC'' = Some examplePosition" by simp
  have h2: "(0::real) < 1 / 2" and h3: "(0::real) < 110" by simp_all
  have h4: "(0::real) < 3 / 2 \<and> (0::real) < 120 \<and> 1 / 2 + 3 / 2 = l_size (entry examplePosition)"
    by (simp add: examplePosition_def)
  from closePosition_partial_close[OF h1 h2 h3, of 2 "''sell''" "''Ioc''" "''8''" "1 / 50" 0
      3 "''sell''" "''Ioc''" "''9''" "3 / 50" 0 3 "''sell''" "''Ioc''" "''9''" 0] h4
  have "\<exists>c1 t1 c2 t2 cf tf r1 r2 rf.
      closePosition ?T 2 ''BTC'' ''sell'' (1 / 2) 110 ''Ioc'' ''8'' (1 / 50) 0 = (Some c1, t1) \<and>
      closePosition t1 3 ''BTC'' ''sell'' (3 / 2) 120 ''Ioc'' ''9'' (3 / 50) 0 = (Some c2, t2) \<and>
      closePosition ?T 3 ''BTC'' ''sell'' (1 / 2 + 3 / 2)
        ((110 * (1 / 2) + 120 * (3 / 2)) / (1 / 2 + 3 / 2))
        ''Ioc'' ''9'' (1 / 50 + 3 / 50) 0 = (Some cf, tf) \<and>
      pnl c1 = Some r1 \<and> pnl c2 = Some r2 \<and> pnl cf = Some rf \<and>
      net r1 + net r2 = net rf \<and> gross r1 + gross r2 = gross rf \<and>
      map_of (openPositions t2) ''BTC'' = None \<and> map_of (openPositions tf) ''BTC'' = None"
    by blast
  then show ?thesis using h1 h2 h3 h4 by blast
qed

section \<open>Properties of reconciliation\<close>






















lemma exchangeMapOf_fold_Some:
  "map_of (foldl (\<lambda>m p. AList.update (x_coin p) p m) m0 ps) c = Some x \<Longrightarrow>
   map_of m0 c = Some x \<or> (x \<in> set ps \<and> x_coin x = c)"
proof (induction ps arbitrary: m0)
  case Nil
  then show ?case by simp
next
  case (Cons a ps)
  from Cons.IH[of "AList.update (x_coin a) a m0"] Cons.prems
  have "map_of (AList.update (x_coin a) a m0) c = Some x \<or> (x \<in> set ps \<and> x_coin x = c)"
    by simp
  then show ?case
    by (auto simp: update_conv' split: if_splits)
qed

lemma exchangeMapOf_Some:
  "map_of (exchangeMapOf xs) c = Some x \<Longrightarrow> x \<in> set xs \<and> x_coin x = c \<and> x_size x \<noteq> 0"
  using exchangeMapOf_fold_Some[of "[]" "filter (\<lambda>p. x_size p \<noteq> 0) xs" c x]
  by (auto simp: exchangeMapOf_def)




























section \<open>Properties of the price triggers\<close>

lemma priceLoop_keys: "map fst (fst (priceLoop m cbs throws ts)) = map fst ts"
proof (induction ts)
  case Nil
  then show ?case by simp
next
  case (Cons e ts)
  obtain tid t where e: "e = (tid, t)" by (cases e)
  obtain r1 r2 r3 where r: "priceLoop m cbs throws ts = (r1, r2, r3)"
    by (cases "priceLoop m cbs throws ts")
  with Cons have k: "map fst r1 = map fst ts" by simp
  show ?case unfolding e
    by (cases t) (simp_all add: r k Let_def)
qed

lemma priceLoop_reports_keys:
  "CallbackInvoked i \<in> set (fst (snd (priceLoop m cbs throws ts))) \<Longrightarrow> i \<in> fst ` set ts"
proof (induction ts)
  case Nil
  then show ?case by simp
next
  case (Cons e ts)
  obtain tid t where e: "e = (tid, t)" by (cases e)
  obtain r1 r2 r3 where r: "priceLoop m cbs throws ts = (r1, r2, r3)"
    by (cases "priceLoop m cbs throws ts")
  from Cons.prems have "i = tid \<or> CallbackInvoked i \<in> set r2"
    unfolding e by (cases t) (auto simp: r Let_def split: if_splits)
  with Cons.IH r show ?case unfolding e by auto
qed

lemma priceLoop_trigger:
  assumes nt: "\<forall>i. \<not> throws i"
  shows "distinct (map fst ts) \<Longrightarrow> (tid, Price pt) \<in> set ts \<Longrightarrow>
     m (pt_coin pt) = Some cp \<Longrightarrow> cp \<noteq> 0 \<Longrightarrow>
     (CallbackInvoked tid \<in> set (fst (snd (priceLoop m cbs throws ts)))) =
       (priceShouldTrigger (pt_condition pt) (lastPrice pt) cp \<and> tid \<in> set cbs) \<and>
     map_of (fst (priceLoop m cbs throws ts)) tid = Some (Price (pt\<lparr>lastPrice := Some cp\<rparr>))"
proof (induction ts)
  case Nil
  then show ?case by simp
next
  case (Cons e ts)
  obtain tid' t where e: "e = (tid', t)" by (cases e)
  obtain r1 r2 r3 where r: "priceLoop m cbs throws ts = (r1, r2, r3)"
    by (cases "priceLoop m cbs throws ts")
  from Cons.prems(1) have d: "distinct (map fst ts)" and nk: "tid' \<notin> fst ` set ts"
    unfolding e by auto
  show ?case
  proof (cases "tid' = tid")
    case True
    with Cons.prems(2) nk have t: "t = Price pt" unfolding e by force
    have "CallbackInvoked tid \<notin> set r2"
      using priceLoop_reports_keys[of tid m cbs throws ts] nk True r by auto
    moreover have "\<not> throws tid" using nt by simp
    ultimately show ?thesis
      unfolding e True t using Cons.prems(3,4)
      by (simp add: r Let_def)
  next
    case False
    with Cons.prems(2) have mem: "(tid, Price pt) \<in> set ts" unfolding e by auto
    from Cons.IH[OF d mem Cons.prems(3,4)] r
    have IH: "(CallbackInvoked tid \<in> set r2) =
       (priceShouldTrigger (pt_condition pt) (lastPrice pt) cp \<and> tid \<in> set cbs)"
      "map_of r1 tid = Some (Price (pt\<lparr>lastPrice := Some cp\<rparr>))" by simp_all
    have "\<not> throws tid'" using nt by simp
    then show ?thesis
      unfolding e using False IH
      by (cases t) (auto simp: r Let_def)
  qed
qed


lemma evaluatePriceTriggers_tick:
  assumes d: "distinct (map fst (activeTriggers this))"
    and t: "(tid, Price pt) \<in> set (activeTriggers this)"
    and cb: "tid \<in> set (triggerCallbacks this)"
    and nt: "\<forall>i. \<not> throws i"
    and p: "m (pt_coin pt) = Some cp" "cp \<noteq> 0"
    and e: "evaluatePriceTriggers this (Some m) throws = (this', reps, f)"
  shows "(CallbackInvoked tid \<in> set reps) = priceShouldTrigger (pt_condition pt) (lastPrice pt) cp"
    and "distinct (map fst (activeTriggers this'))"
    and "(tid, Price (pt\<lparr>lastPrice := Some cp\<rparr>)) \<in> set (activeTriggers this')"
    and "triggerCallbacks this' = triggerCallbacks this"
proof -
  obtain r1 r2 r3 where r: "priceLoop m (triggerCallbacks this) throws (activeTriggers this) = (r1, r2, r3)"
    by (cases "priceLoop m (triggerCallbacks this) throws (activeTriggers this)")
  from e r have eq: "this' = this\<lparr>activeTriggers := r1\<rparr>" "reps = r2"
    by (simp_all add: evaluatePriceTriggers_def)
  note L = priceLoop_trigger[where throws = throws and ts = "activeTriggers this" and tid = tid
      and pt = pt and m = m and cp = cp and cbs = "triggerCallbacks this", OF nt d t p]
  show "(CallbackInvoked tid \<in> set reps) = priceShouldTrigger (pt_condition pt) (lastPrice pt) cp"
    using L cb by (simp add: r eq)
  show "distinct (map fst (activeTriggers this'))"
    using priceLoop_keys[of m "triggerCallbacks this" throws "activeTriggers this"] d
    by (simp add: r eq)
  show "(tid, Price (pt\<lparr>lastPrice := Some cp\<rparr>)) \<in> set (activeTriggers this')"
    using L by (simp add: r eq map_of_SomeD)
  show "triggerCallbacks this' = triggerCallbacks this" by (simp add: eq)
qed

text \<open>
  C1, as the code has it. In two consecutive evaluations that observe nonzero prices
  \<open>cp1\<close> and \<open>cp2\<close> of a price trigger's coin, with callbacks that return, the callback
  is invoked in the first exactly when the \<open>shouldTrigger\<close> chain holds against the stored
  last price, and in the second exactly when it holds against \<open>cp1\<close>, the previous
  observation. With a previous observation \<open>lp\<close>, an \<open>above\<close> trigger fires exactly when
  \<open>lp\<close> was not above the threshold and the price now is, a \<open>below\<close> trigger likewise,
  and a \<open>crosses\<close> trigger exactly when the price came from strictly below to the
  threshold or over it, or from strictly above to the threshold or under it; so a
  condition that stays met does not fire again. Without a previous observation (the first
  one after registration) an \<open>above\<close> or \<open>below\<close> trigger fires exactly when the price is
  already strictly beyond the threshold, and a \<open>crosses\<close> trigger does not fire.
\<close>

theorem evaluatePriceTriggers_fires_on_transition:
  assumes d: "distinct (map fst (activeTriggers this))"
    and t: "(tid, Price pt) \<in> set (activeTriggers this)"
    and cb: "tid \<in> set (triggerCallbacks this)"
    and nt: "\<forall>i. \<not> throws i"
    and p1: "m1 (pt_coin pt) = Some cp1" "cp1 \<noteq> 0"
    and p2: "m2 (pt_coin pt) = Some cp2" "cp2 \<noteq> 0"
    and e1: "evaluatePriceTriggers this (Some m1) throws = (this1, reps1, f1)"
    and e2: "evaluatePriceTriggers this1 (Some m2) throws = (this2, reps2, f2)"
  shows
    "(CallbackInvoked tid \<in> set reps1) = priceShouldTrigger (pt_condition pt) (lastPrice pt) cp1 \<and>
     (CallbackInvoked tid \<in> set reps2) = priceShouldTrigger (pt_condition pt) (Some cp1) cp2 \<and>
     priceShouldTrigger \<lparr>pc_above = Some a, pc_below = None, pc_crosses = None\<rparr> (Some lp) cp =
       (lp \<le> a \<and> cp > a) \<and>
     priceShouldTrigger \<lparr>pc_above = None, pc_below = Some a, pc_crosses = None\<rparr> (Some lp) cp =
       (lp \<ge> a \<and> cp < a) \<and>
     priceShouldTrigger \<lparr>pc_above = None, pc_below = None, pc_crosses = Some a\<rparr> (Some lp) cp =
       ((lp < a \<and> cp \<ge> a) \<or> (lp > a \<and> cp \<le> a)) \<and>
     priceShouldTrigger \<lparr>pc_above = Some a, pc_below = None, pc_crosses = None\<rparr> None cp = (cp > a) \<and>
     priceShouldTrigger \<lparr>pc_above = None, pc_below = Some a, pc_crosses = None\<rparr> None cp = (cp < a) \<and>
     priceShouldTrigger \<lparr>pc_above = None, pc_below = None, pc_crosses = Some a\<rparr> None cp = False"
proof -
  note A = evaluatePriceTriggers_tick[where throws = throws and m = m1 and cp = cp1,
      OF d t cb nt p1 e1]
  have cb1: "tid \<in> set (triggerCallbacks this1)" using A(4) cb by simp
  have c2: "m2 (pt_coin (pt\<lparr>lastPrice := Some cp1\<rparr>)) = Some cp2" using p2(1) by simp
  note B = evaluatePriceTriggers_tick[where throws = throws and m = m2 and cp = cp2,
      OF A(2) A(3) cb1 nt c2 p2(2) e2]
  have "(CallbackInvoked tid \<in> set reps2) = priceShouldTrigger (pt_condition pt) (Some cp1) cp2"
    using B(1) by simp
  with A(1) show ?thesis by (simp add: priceShouldTrigger_def)
qed

text \<open>
  C1 as stated fails: the first observation after registration fires an \<open>above\<close> trigger
  when the price is already above the threshold (\<open>!hasLastPrice ||\<close> in the source). It
  also fails when the callback throws: the loop is left before the last price is stored,
  so with observations 95, 105 and 106 the callback is invoked at 105 and again at 106.
\<close>

theorem first_observation_fires_counterexample:
  "CallbackInvoked ''t1'' \<in> set (fst (snd (evaluatePriceTriggers
      (registerPriceTrigger \<lparr>activeTriggers = [], triggerCallbacks = []\<rparr> ''t1'' ''BTC''
         \<lparr>pc_above = Some 100, pc_below = None, pc_crosses = None\<rparr>)
      (Some [''BTC'' \<mapsto> 105]) (\<lambda>i. False)))) \<and>
   CallbackInvoked ''t1'' \<in> set (fst (snd (evaluatePriceTriggers
      (fst (evaluatePriceTriggers exampleEngine (Some [''BTC'' \<mapsto> 95]) (\<lambda>i. True)))
      (Some [''BTC'' \<mapsto> 105]) (\<lambda>i. True)))) \<and>
   CallbackInvoked ''t1'' \<in> set (fst (snd (evaluatePriceTriggers
      (fst (evaluatePriceTriggers
         (fst (evaluatePriceTriggers exampleEngine (Some [''BTC'' \<mapsto> 95]) (\<lambda>i. True)))
         (Some [''BTC'' \<mapsto> 105]) (\<lambda>i. True)))
      (Some [''BTC'' \<mapsto> 106]) (\<lambda>i. True))))"
  by (simp add: evaluatePriceTriggers_def registerPriceTrigger_def priceShouldTrigger_def Let_def
      exampleEngine_def exampleAbove_def)


text \<open>
  A trigger \<open>above 100\<close> on BTC: a first observation of 95 does not fire, the next one of
  105 does.
\<close>

theorem evaluatePriceTriggers_fires_on_transition_witness:
  "distinct (map fst (activeTriggers exampleEngine)) \<and>
   (''t1'', Price \<lparr>pt_coin = ''BTC'', pt_condition = exampleAbove, lastPrice = None\<rparr>)
     \<in> set (activeTriggers exampleEngine) \<and>
   ''t1'' \<in> set (triggerCallbacks exampleEngine) \<and>
   CallbackInvoked ''t1'' \<notin>
     set (fst (snd (evaluatePriceTriggers exampleEngine (Some [''BTC'' \<mapsto> 95]) (\<lambda>i. False)))) \<and>
   CallbackInvoked ''t1'' \<in>
     set (fst (snd (evaluatePriceTriggers
        (fst (evaluatePriceTriggers exampleEngine (Some [''BTC'' \<mapsto> 95]) (\<lambda>i. False)))
        (Some [''BTC'' \<mapsto> 105]) (\<lambda>i. False))))"
proof -
  let ?pt = "\<lparr>pt_coin = ''BTC'', pt_condition = exampleAbove, lastPrice = None\<rparr>"
  let ?m1 = "[''BTC'' \<mapsto> (95::real)]" and ?m2 = "[''BTC'' \<mapsto> (105::real)]"
  let ?X = "evaluatePriceTriggers exampleEngine (Some ?m1) (\<lambda>i. False)"
  let ?Y = "evaluatePriceTriggers (fst ?X) (Some ?m2) (\<lambda>i. False)"
  have d: "distinct (map fst (activeTriggers exampleEngine))"
    and t: "(''t1'', Price ?pt) \<in> set (activeTriggers exampleEngine)"
    and cb: "''t1'' \<in> set (triggerCallbacks exampleEngine)"
    by (simp_all add: exampleEngine_def registerPriceTrigger_def)
  have nt: "\<forall>i::string. \<not> (\<lambda>i. False) i" by simp
  have p1: "?m1 (pt_coin ?pt) = Some 95" "(95::real) \<noteq> 0"
    and p2: "?m2 (pt_coin ?pt) = Some 105" "(105::real) \<noteq> 0" by simp_all
  have e1: "?X = (fst ?X, fst (snd ?X), snd (snd ?X))"
    and e2: "?Y = (fst ?Y, fst (snd ?Y), snd (snd ?Y))" by simp_all
  from evaluatePriceTriggers_fires_on_transition[where throws = "\<lambda>i. False",
      OF d t cb nt p1 p2 e1 e2]
  have "(CallbackInvoked ''t1'' \<in> set (fst (snd ?X))) =
          priceShouldTrigger (pt_condition ?pt) (lastPrice ?pt) 95"
    and "(CallbackInvoked ''t1'' \<in> set (fst (snd ?Y))) =
          priceShouldTrigger (pt_condition ?pt) (Some 95) 105"
    by blast+
  then have "CallbackInvoked ''t1'' \<notin> set (fst (snd ?X))"
    and "CallbackInvoked ''t1'' \<in> set (fst (snd ?Y))"
    by (simp_all add: priceShouldTrigger_def exampleAbove_def)
  with d t cb show ?thesis by blast
qed

section \<open>Properties of the technical and composite triggers\<close>










































section \<open>Properties of the price rounding\<close>

lemma js_round_of_int: "js_round (of_int n) = of_int n"
  unfolding js_round_def by (simp add: floor_add)

lemma powi_nonneg: "0 \<le> n \<Longrightarrow> (10::real) powi n = of_int (10 ^ nat n)"
  by (simp add: power_int_def)

lemma powi_inv: "1 / (10::real) powi n = 10 powi (- n)"
  by (simp add: power_int_minus inverse_eq_divide)

lemma mag_bounds:
  assumes "x \<noteq> 0"
  shows "10 powi \<lfloor>log 10 \<bar>x\<bar>\<rfloor> \<le> \<bar>x\<bar>" and "\<bar>x\<bar> < 10 powi (\<lfloor>log 10 \<bar>x\<bar>\<rfloor> + 1)"
proof -
  have p: "0 < \<bar>x\<bar>" using assms by simp
  from floor_log_eq_powr_iff[OF p, of 10 "\<lfloor>log 10 \<bar>x\<bar>\<rfloor>"]
  have "10 powr (of_int \<lfloor>log 10 \<bar>x\<bar>\<rfloor>) \<le> \<bar>x\<bar>"
    and "\<bar>x\<bar> < 10 powr (of_int \<lfloor>log 10 \<bar>x\<bar>\<rfloor> + 1)" by simp_all
  then show "10 powi \<lfloor>log 10 \<bar>x\<bar>\<rfloor> \<le> \<bar>x\<bar>" and "\<bar>x\<bar> < 10 powi (\<lfloor>log 10 \<bar>x\<bar>\<rfloor> + 1)"
    using powr_real_of_int'[of 10 "\<lfloor>log 10 \<bar>x\<bar>\<rfloor>"] powr_real_of_int'[of 10 "\<lfloor>log 10 \<bar>x\<bar>\<rfloor> + 1"]
    by simp_all
qed

lemma mag_upper:
  assumes "x \<noteq> 0" and "\<bar>x\<bar> < 10 powi n"
  shows "\<lfloor>log 10 \<bar>x\<bar>\<rfloor> < n"
proof (rule ccontr)
  assume "\<not> \<lfloor>log 10 \<bar>x\<bar>\<rfloor> < n"
  then have "n \<le> \<lfloor>log 10 \<bar>x\<bar>\<rfloor>" by simp
  then have "(10::real) powi n \<le> 10 powi \<lfloor>log 10 \<bar>x\<bar>\<rfloor>"
    by (intro power_int_increasing) simp_all
  with mag_bounds(1)[OF assms(1)] assms(2) show False by simp
qed

lemma mag_lower:
  assumes "x \<noteq> 0" and "10 powi n \<le> \<bar>x\<bar>"
  shows "n \<le> \<lfloor>log 10 \<bar>x\<bar>\<rfloor>"
proof (rule ccontr)
  assume "\<not> n \<le> \<lfloor>log 10 \<bar>x\<bar>\<rfloor>"
  then have "\<lfloor>log 10 \<bar>x\<bar>\<rfloor> + 1 \<le> n" by simp
  then have "(10::real) powi (\<lfloor>log 10 \<bar>x\<bar>\<rfloor> + 1) \<le> 10 powi n"
    by (intro power_int_increasing) simp_all
  with mag_bounds(2)[OF assms(1)] assms(2) show False by simp
qed

lemma js_round_abs_le:
  fixes x :: real
  assumes "\<bar>x\<bar> \<le> of_int N"
  shows "\<bar>\<lfloor>x + 1 / 2\<rfloor>\<bar> \<le> N"
proof -
  have "x + 1 / 2 < of_int (N + 1)" using assms by simp
  then have "\<lfloor>x + 1 / 2\<rfloor> < N + 1" by (simp only: floor_less_iff)
  then have u: "\<lfloor>x + 1 / 2\<rfloor> \<le> N" by simp
  have "of_int (- N) \<le> x + 1 / 2" using assms by simp
  then have l: "- N \<le> \<lfloor>x + 1 / 2\<rfloor>" by (simp only: le_floor_iff)
  from u l show ?thesis by simp
qed


lemma step1_form:
  assumes x: "x \<noteq> 0"
  shows "\<exists>k1::int. js_round (x * 10 powi (4 - \<lfloor>log 10 \<bar>x\<bar>\<rfloor>)) / 10 powi (4 - \<lfloor>log 10 \<bar>x\<bar>\<rfloor>) =
           of_int k1 * 10 powi (\<lfloor>log 10 \<bar>x\<bar>\<rfloor> - 4) \<and> \<bar>k1\<bar> \<le> 100000"
proof -
  let ?m = "\<lfloor>log 10 \<bar>x\<bar>\<rfloor>"
  let ?s = "(10::real) powi (4 - ?m)"
  let ?k = "\<lfloor>x * ?s + 1 / 2\<rfloor>"
  have sp: "0 < ?s" by simp
  have "\<bar>x * ?s\<bar> = \<bar>x\<bar> * ?s" using sp by (simp add: abs_mult)
  also have "\<dots> \<le> 10 powi (?m + 1) * ?s"
    using mag_bounds(2)[OF x] sp by (intro mult_right_mono) simp_all
  also have "\<dots> = 10 powi ((?m + 1) + (4 - ?m))"
    by (subst power_int_add) simp_all
  also have "(?m + 1) + (4 - ?m) = 5" by simp
  also have "(10::real) powi 5 = of_int 100000" by simp
  finally have "\<bar>?k\<bar> \<le> 100000" by (rule js_round_abs_le)
  moreover have "js_round (x * ?s) / ?s = of_int ?k * 10 powi (?m - 4)"
  proof -
    have "1 / ?s = 10 powi (- (4 - ?m))" by (rule powi_inv)
    also have "- (4 - ?m) = ?m - 4" by simp
    finally have i: "1 / ?s = 10 powi (?m - 4)" .
    have "js_round (x * ?s) / ?s = of_int ?k * (1 / ?s)"
      unfolding js_round_def by (rule divide_real_def[unfolded inverse_eq_divide])
    then show ?thesis unfolding i .
  qed
  ultimately show ?thesis by blast
qed

lemma step2_id:
  assumes "0 \<le> e + int D"
  shows "js_round (of_int k * 10 powi e * 10 ^ D) / 10 ^ D = of_int k * 10 powi e"
proof -
  have "of_int k * 10 powi e * (10::real) ^ D = of_int k * (10 powi e * 10 powi (int D))"
    by simp
  also have "\<dots> = of_int k * 10 powi (e + int D)"
    by (subst power_int_add) simp_all
  also have "\<dots> = of_int (k * 10 ^ nat (e + int D))"
    using assms by (simp add: powi_nonneg)
  finally have "js_round (of_int k * 10 powi e * 10 ^ D) = of_int k * 10 powi e * 10 ^ D"
    by (simp only: js_round_of_int)
  then show ?thesis by simp
qed

lemma sig_form:
  assumes k1: "\<bar>k1\<bar> \<le> (100000::int)"
  shows "\<exists>(k::int) e. js_round (of_int k1 * 10 powi e1 * 10 ^ D) / 10 ^ D = of_int k * 10 powi e \<and>
           \<bar>k\<bar> < 100000"
proof (cases "0 \<le> e1 + int D")
  case True
  note id = step2_id[OF True, of k1]
  show ?thesis
  proof (cases "\<bar>k1\<bar> < 100000")
    case True
    with id show ?thesis by blast
  next
    case False
    with k1 have "k1 = 100000 \<or> k1 = - 100000" by linarith
    then have "of_int k1 * (10::real) powi e1 = of_int (k1 div 100000) * 10 powi (e1 + 5)"
      by (subst power_int_add) auto
    moreover have "\<bar>k1 div 100000\<bar> < 100000" using k1 by linarith
    ultimately show ?thesis using id by metis
  qed
next
  case False
  then have neg: "e1 + int D \<le> - 1" by simp
  let ?y = "of_int k1 * 10 powi e1 * (10::real) ^ D"
  have "?y = of_int k1 * (10 powi e1 * 10 powi (int D))" by simp
  also have "\<dots> = of_int k1 * 10 powi (e1 + int D)"
    by (subst power_int_add) simp_all
  finally have y: "?y = of_int k1 * 10 powi (e1 + int D)" .
  have "(10::real) powi (e1 + int D) \<le> 10 powi (- 1)"
    using neg by (intro power_int_increasing) simp_all
  then have p: "(10::real) powi (e1 + int D) \<le> 1 / 10" by simp
  have "\<bar>?y\<bar> = \<bar>of_int k1\<bar> * 10 powi (e1 + int D)"
    unfolding y by (simp add: abs_mult)
  also have "\<dots> \<le> 100000 * (1 / 10)"
    using k1 p by (intro mult_mono) simp_all
  finally have "\<bar>?y\<bar> \<le> of_int 10000" by simp
  then have "\<bar>\<lfloor>?y + 1 / 2\<rfloor>\<bar> \<le> 10000" by (rule js_round_abs_le)
  then have b: "\<bar>\<lfloor>?y + 1 / 2\<rfloor>\<bar> < 100000" by simp
  have "js_round ?y / 10 ^ D = of_int \<lfloor>?y + 1 / 2\<rfloor> * 10 powi (- int D)"
  proof -
    have "1 / (10::real) powi (int D) = 10 powi (- int D)" by (rule powi_inv)
    then have i: "1 / (10::real) ^ D = 10 powi (- int D)" by simp
    have "js_round ?y / 10 ^ D = of_int \<lfloor>?y + 1 / 2\<rfloor> * (1 / 10 ^ D)"
      unfolding js_round_def by (rule divide_real_def[unfolded inverse_eq_divide])
    then show ?thesis unfolding i .
  qed
  with b show ?thesis by blast
qed

lemma isInteger_of_int: "isInteger (of_int n)"
  unfolding isInteger_def by simp

lemma isInteger_js_round: "isInteger (js_round x)"
  unfolding js_round_def by (rule isInteger_of_int)

lemma roundToTick_decimals: "isInteger (roundToTick p sz * 10 ^ nat (max 0 (6 - int sz)))"
  unfolding roundToTick_def Let_def by (simp add: isInteger_js_round)

lemma roundToTick_sig:
  assumes "p \<noteq> 0"
  shows "\<exists>(k::int) e. roundToTick p sz = of_int k * 10 powi e \<and> \<bar>k\<bar> < 100000"
proof -
  from step1_form[OF assms] obtain k1 :: int where
    a: "js_round (p * 10 powi (4 - \<lfloor>log 10 \<bar>p\<bar>\<rfloor>)) / 10 powi (4 - \<lfloor>log 10 \<bar>p\<bar>\<rfloor>) =
          of_int k1 * 10 powi (\<lfloor>log 10 \<bar>p\<bar>\<rfloor> - 4)" and b: "\<bar>k1\<bar> \<le> 100000" by blast
  have "roundToTick p sz =
          js_round (of_int k1 * 10 powi (\<lfloor>log 10 \<bar>p\<bar>\<rfloor> - 4) * 10 ^ nat (max 0 (6 - int sz))) /
            10 ^ nat (max 0 (6 - int sz))"
    unfolding roundToTick_def Let_def using a by simp
  with sig_form[OF b, of "\<lfloor>log 10 \<bar>p\<bar>\<rfloor> - 4" "nat (max 0 (6 - int sz))"] show ?thesis by simp
qed

lemma roundToTick_fix:
  assumes r0: "r \<noteq> 0" and form: "r = of_int k * 10 powi e" and k: "\<bar>k\<bar> < (100000::int)"
    and dec: "isInteger (r * 10 ^ nat (max 0 (6 - int sz)))"
  shows "roundToTick r sz = r"
proof -
  let ?m = "\<lfloor>log 10 \<bar>r\<bar>\<rfloor>"
  let ?D = "nat (max 0 (6 - int sz))"
  have "\<bar>r\<bar> = of_int \<bar>k\<bar> * 10 powi e" unfolding form by (simp add: abs_mult)
  also have "\<dots> < of_int 100000 * 10 powi e"
    using k by (intro mult_strict_right_mono) simp_all
  also have "\<dots> = 10 powi 5 * 10 powi e" by simp
  also have "\<dots> = 10 powi (5 + e)" by (subst power_int_add) simp_all
  finally have "?m < 5 + e" by (rule mag_upper[OF r0])
  then have nn: "0 \<le> e + (4 - ?m)" by simp
  have "r * 10 powi (4 - ?m) = of_int k * (10 powi e * 10 powi (4 - ?m))"
    unfolding form by simp
  also have "\<dots> = of_int k * 10 powi (e + (4 - ?m))"
    by (subst power_int_add) simp_all
  also have "\<dots> = of_int (k * 10 ^ nat (e + (4 - ?m)))"
    using nn by (simp add: powi_nonneg)
  finally have "js_round (r * 10 powi (4 - ?m)) = r * 10 powi (4 - ?m)"
    by (simp only: js_round_of_int)
  then have s1: "js_round (r * 10 powi (4 - ?m)) / 10 powi (4 - ?m) = r" by simp
  from dec have "r * 10 ^ ?D = of_int \<lfloor>r * 10 ^ ?D\<rfloor>" unfolding isInteger_def .
  then have "js_round (r * 10 ^ ?D) = r * 10 ^ ?D"
    using js_round_of_int[of "\<lfloor>r * 10 ^ ?D\<rfloor>"] by simp
  then have s2: "js_round (r * 10 ^ ?D) / 10 ^ ?D = r" by simp
  show ?thesis unfolding roundToTick_def Let_def using s1 s2 by simp
qed

lemma roundToTick_idem:
  assumes "p \<noteq> 0" and "roundToTick p sz \<noteq> 0"
  shows "roundToTick (roundToTick p sz) sz = roundToTick p sz"
proof -
  from roundToTick_sig[OF assms(1), of sz] obtain k :: int and e where
    f: "roundToTick p sz = of_int k * 10 powi e" and k: "\<bar>k\<bar> < 100000" by blast
  show ?thesis by (rule roundToTick_fix[OF assms(2) f k roundToTick_decimals])
qed

lemma roundPrice_idem:
  "roundPrice (Some p) (Inr info) = Inr r \<Longrightarrow> roundPrice (Some r) (Inr info) = Inr r"
  unfolding roundPrice_def using roundToTick_idem[of p "szDecimalsOf info"]
  by (auto split: if_splits)

lemma roundPrice_leverage:
  "roundPrice price (Inr (info\<lparr>ci_maxLeverage := lev\<rparr>)) = roundPrice price (Inr info)"
  by (cases price) (simp_all add: roundPrice_def szDecimalsOf_def)

lemma example_magnitude: "\<lfloor>log 10 \<bar>123456 / 100000 :: real\<bar>\<rfloor> = 0"
proof -
  have "(0::int) \<le> \<lfloor>log 10 \<bar>123456 / 100000 :: real\<bar>\<rfloor>"
    by (rule mag_lower) simp_all
  moreover have "\<lfloor>log 10 \<bar>123456 / 100000 :: real\<bar>\<rfloor> < (1::int)"
    by (rule mag_upper) simp_all
  ultimately show ?thesis by linarith
qed

lemma example_not_integer: "\<not> isInteger (123456 / 100000)"
  unfolding isInteger_def by simp

lemma example_round4: "roundToTick (123456 / 100000) 2 = 12346 / 10000"
  unfolding roundToTick_def Let_def example_magnitude by (simp add: js_round_def)

lemma example_round2: "roundToTick (123456 / 100000) 4 = 123 / 100"
  unfolding roundToTick_def Let_def example_magnitude by (simp add: js_round_def)

text \<open>
  C7, as the code has it. For every finite price \<open>p\<close> and every coin the exchange knows,
  \<open>_roundPrice\<close> returns a price \<open>r\<close>: an integer price is returned unchanged; any other
  price comes back with at most five significant figures (\<open>r = k * 10 ^ e\<close> with
  \<open>\<bar>k\<bar> < 100000\<close>); \<open>r\<close> has at most \<open>max 0 (6 - szDecimals)\<close> decimals, where
  \<open>szDecimals\<close> is the lot precision of the coin (4 when the metadata lacks it); rounding
  \<open>r\<close> again gives \<open>r\<close>; and the result does not depend on the maximum leverage of the
  coin. Arithmetic is exact.
\<close>

theorem roundPrice_tick_rule_idempotent:
  "\<exists>r. roundPrice (Some p) (Inr info) = Inr r \<and>
       (isInteger p \<longrightarrow> r = p) \<and>
       (\<not> isInteger p \<longrightarrow> (\<exists>(k::int) e. r = of_int k * 10 powi e \<and> \<bar>k\<bar> < 100000)) \<and>
       isInteger (r * 10 ^ nat (max 0 (6 - int (szDecimalsOf info)))) \<and>
       roundPrice (Some r) (Inr info) = Inr r \<and>
       roundPrice (Some p) (Inr (info\<lparr>ci_maxLeverage := lev\<rparr>)) = Inr r"
proof -
  obtain r where r: "roundPrice (Some p) (Inr info) = Inr r"
    unfolding roundPrice_def by (cases "p = 0"; cases "isInteger p"; simp)
  have a: "isInteger p \<longrightarrow> r = p"
    using r unfolding roundPrice_def by (auto simp: isInteger_def split: if_splits)
  have b: "\<not> isInteger p \<longrightarrow> (\<exists>(k::int) e. r = of_int k * 10 powi e \<and> \<bar>k\<bar> < 100000)"
  proof
    assume ni: "\<not> isInteger p"
    then have p0: "p \<noteq> 0" unfolding isInteger_def by auto
    with ni r have "r = roundToTick p (szDecimalsOf info)" unfolding roundPrice_def by simp
    with roundToTick_sig[OF p0, of "szDecimalsOf info"] show "\<exists>(k::int) e. r = of_int k * 10 powi e \<and> \<bar>k\<bar> < 100000"
      by simp
  qed
  have c: "isInteger (r * 10 ^ nat (max 0 (6 - int (szDecimalsOf info))))"
  proof (cases "isInteger p")
    case True
    with a have "r = p" by simp
    with True have "r = of_int \<lfloor>p\<rfloor>" unfolding isInteger_def by simp
    then have "r * 10 ^ nat (max 0 (6 - int (szDecimalsOf info))) =
                 of_int (\<lfloor>p\<rfloor> * 10 ^ nat (max 0 (6 - int (szDecimalsOf info))))" by simp
    then show ?thesis by (simp only: isInteger_of_int)
  next
    case False
    then have p0: "p \<noteq> 0" unfolding isInteger_def by auto
    with False r have "r = roundToTick p (szDecimalsOf info)" unfolding roundPrice_def by simp
    then show ?thesis by (simp only: roundToTick_decimals)
  qed
  have d: "roundPrice (Some r) (Inr info) = Inr r" by (rule roundPrice_idem[OF r])
  have e: "roundPrice (Some p) (Inr (info\<lparr>ci_maxLeverage := lev\<rparr>)) = Inr r"
    using r by (simp only: roundPrice_leverage)
  from r a b c d e show ?thesis by blast
qed

theorem roundPrice_tick_rule_idempotent_witness:
  "roundPrice (Some (123456 / 100000)) (Inr exampleCoin) = Inr (12346 / 10000) \<and>
   roundPrice (Some (12346 / 10000)) (Inr exampleCoin) = Inr (12346 / 10000) \<and>
   roundPrice (Some (123456 / 100000)) (Inr (exampleCoin\<lparr>ci_maxLeverage := Some 3\<rparr>)) = Inr (12346 / 10000) \<and>
   isInteger (12346 / 10000 * 10 ^ nat (max 0 (6 - int (szDecimalsOf exampleCoin))))"
proof -
  have v: "roundPrice (Some (123456 / 100000)) (Inr exampleCoin) = Inr (12346 / 10000)"
    unfolding roundPrice_def using example_not_integer example_round4
    by (simp add: szDecimalsOf_def exampleCoin_def)
  from roundPrice_tick_rule_idempotent[where p = "123456 / 100000" and info = exampleCoin and lev = "Some 3"]
  obtain r where r1: "roundPrice (Some (123456 / 100000)) (Inr exampleCoin) = Inr r"
    and r2: "isInteger (r * 10 ^ nat (max 0 (6 - int (szDecimalsOf exampleCoin))))"
    and r3: "roundPrice (Some r) (Inr exampleCoin) = Inr r"
    and r4: "roundPrice (Some (123456 / 100000)) (Inr (exampleCoin\<lparr>ci_maxLeverage := Some 3\<rparr>)) = Inr r"
    by blast
  from r1[unfolded v] have req: "12346 / 10000 = r" by (simp only: sum.inject)
  show ?thesis unfolding req using r1 r2 r3 r4 by blast
qed

text \<open>
  C7 as stated fails in one point: the maximum decimal count follows the lot precision
  of the coin and not its leverage. Two coins with the same maximum leverage and lot
  precisions 2 and 4 round 1.23456 to 1.2346 and to 1.23, and two coins with the same lot
  precision and different maximum leverage round it to the same price.
\<close>

theorem roundPrice_decimals_by_lot_precision_counterexample:
  "roundPrice (Some (123456 / 100000)) (Inr \<lparr>ci_szDecimals = Some 2, ci_maxLeverage = Some 50\<rparr>) = Inr (12346 / 10000) \<and>
   roundPrice (Some (123456 / 100000)) (Inr \<lparr>ci_szDecimals = Some 4, ci_maxLeverage = Some 50\<rparr>) = Inr (123 / 100) \<and>
   roundPrice (Some (123456 / 100000)) (Inr \<lparr>ci_szDecimals = Some 4, ci_maxLeverage = Some 3\<rparr>) = Inr (123 / 100)"
  unfolding roundPrice_def using example_not_integer example_round4 example_round2
  by (simp add: szDecimalsOf_def)

section \<open>Properties of the market-order sizing\<close>

lemma roundPrice_returns: "\<exists>r. roundPrice (Some p) (Inr info) = Inr r"
  unfolding roundPrice_def by simp

lemma submitOrder_placed:
  assumes "m_coinInfo env = Inr info"
  shows "\<exists>px. submitOrder env c isBuy sz ro sl mid =
           Placed \<lparr>q_coin = c, q_is_buy = isBuy, q_sz = sz, q_limit_px = px, q_reduce_only = ro\<rparr>"
proof -
  let ?limit = "if isBuy then mid * (1 + sl) else mid * (1 - sl)"
  from roundPrice_returns[of ?limit info] obtain r where
    "roundPrice (Some ?limit) (Inr info) = Inr r" by blast
  then show ?thesis unfolding submitOrder_def Let_def assms by simp
qed

lemma submitOrder_env:
  "submitOrder (env\<lparr>m_balance := b, m_accountValue := a, m_takerFeeRate := t\<rparr>) c isBuy sz ro sl mid =
   submitOrder env c isBuy sz ro sl mid"
  unfolding submitOrder_def by simp

lemma toFixed_nonneg: "0 \<le> x \<Longrightarrow> 0 \<le> toFixed x d"
proof -
  assume x: "0 \<le> x"
  then have "0 \<le> x * 10 ^ d + 1 / 2" by simp
  then have "0 \<le> \<lfloor>x * 10 ^ d + 1 / 2\<rfloor>" by simp
  then show ?thesis using x unfolding toFixed_def by simp
qed

lemma placeMarketOrder_checked:
  assumes "m_coinInfo env = Inr info" and "m_leverage env = Inr leverageForOrder"
    and "m_allMids env = Inr allMids" and "allMids c = Some mid" and "mid \<noteq> 0"
    and "m_balance env = Inr rawBalance" and "0 < toFixed s0 (szDecimalsOf info)"
  shows "placeMarketOrder env c isBuy (Some s0) False slippage =
           checkedOrder env info c isBuy (toFixed s0 (szDecimalsOf info)) slippage mid
             leverageForOrder rawBalance"
  unfolding placeMarketOrder_def Let_def using assms by simp

lemma placeMarketOrder_reduceOnly:
  assumes "m_coinInfo env = Inr info" and "m_leverage env = Inr leverageForOrder"
    and "m_allMids env = Inr allMids" and "allMids c = Some mid" and "mid \<noteq> 0"
    and "0 < toFixed s0 (szDecimalsOf info)"
  shows "placeMarketOrder (env\<lparr>m_balance := b, m_accountValue := a, m_takerFeeRate := t\<rparr>) c isBuy
           (Some s0) True slippage =
         (None, submitOrder env c isBuy (toFixed s0 (szDecimalsOf info)) True slippage mid)"
  unfolding placeMarketOrder_def Let_def using assms by (simp add: submitOrder_env)

lemma maxSizeOf_formula:
  assumes "0 < effLev" and "0 \<le> taker"
  shows "maxSizeOf avail effLev taker mid d = toFixed (max 0 (avail / (1 / effLev + taker) / mid)) d"
proof -
  have "0 < 1 / effLev + taker" using assms by (simp add: add_pos_nonneg)
  then show ?thesis unfolding maxSizeOf_def Let_def by simp
qed

lemma checkedOrder_cases:
  assumes efl: "0 < min lev (real (maxLeverageOf info))" and fee: "0 \<le> m_takerFeeRate env"
    and sz: "0 < sz"
    and avail: "avail = (case rawBalance of None \<Rightarrow> 0 | Some b \<Rightarrow> max 0 b)"
    and effLev: "effLev = min lev (real (maxLeverageOf info))"
    and maxSize: "maxSize = toFixed (max 0 (avail / (1 / effLev + m_takerFeeRate env) / mid)) (szDecimalsOf info)"
    and sz2: "sz2 = min sz maxSize"
    and estFee: "estFee = sz2 * mid * m_takerFeeRate env"
    and req: "req = sz2 * mid / effLev + estFee"
    and warning: "warning = (if maxSize < sz then Some (sz, maxSize) else None)"
  shows "checkedOrder env info c isBuy sz sl mid (Some lev) rawBalance =
     (if maxSize < sz \<and> maxSize \<le> 0 then (None, Rejected (InsufficientAvailableBalance avail))
      else if avail < req then
        (warning, case m_accountValue env of
                    Inl err \<Rightarrow> Rejected (OrderException err)
                  | Inr v \<Rightarrow> Rejected (InsufficientBalance req estFee avail))
      else (warning, submitOrder env c isBuy sz2 False sl mid))"
proof -
  have e0: "\<not> min lev (real (maxLeverageOf info)) \<le> 0" using efl by linarith
  have ms: "maxSizeOf (case rawBalance of None \<Rightarrow> 0 | Some b \<Rightarrow> max 0 b)
              (min lev (real (maxLeverageOf info))) (m_takerFeeRate env) mid (szDecimalsOf info) = maxSize"
    unfolding maxSize avail effLev using efl fee by (simp add: maxSizeOf_formula)
  have co: "checkedOrder env info c isBuy sz sl mid (Some lev) rawBalance =
     (if sz > maxSize \<and> maxSize \<le> 0
      then (None, Rejected (InsufficientAvailableBalance avail))
      else if (if sz > maxSize then maxSize else sz) \<le> 0 then (warning, Rejected InvalidSize)
      else if (if sz > maxSize then maxSize else sz) * mid / effLev +
                (if sz > maxSize then maxSize else sz) * mid * m_takerFeeRate env > avail then
             (case m_accountValue env of
                Inl err \<Rightarrow> (warning, Rejected (OrderException err))
              | Inr accountValue \<Rightarrow>
                  (warning, Rejected (InsufficientBalance
                     ((if sz > maxSize then maxSize else sz) * mid / effLev +
                        (if sz > maxSize then maxSize else sz) * mid * m_takerFeeRate env)
                     ((if sz > maxSize then maxSize else sz) * mid * m_takerFeeRate env) avail)))
      else (warning, submitOrder env c isBuy (if sz > maxSize then maxSize else sz) False sl mid))"
    unfolding checkedOrder_def Let_def option.case ms unfolding avail effLev warning using e0 by simp
  have s2: "(if sz > maxSize then maxSize else sz) = sz2" unfolding sz2 by simp
  show ?thesis
  proof (cases "maxSize < sz \<and> maxSize \<le> 0")
    case True
    then show ?thesis unfolding co by simp
  next
    case False
    with sz have p: "\<not> sz2 \<le> 0" unfolding sz2 by auto
    show ?thesis unfolding co s2 using False p unfolding req estFee
      by (cases "m_accountValue env") auto
  qed
qed

lemma available_nonneg: "0 \<le> (case rawBalance of None \<Rightarrow> 0 | Some b \<Rightarrow> max 0 (b::real))"
  by (cases rawBalance) simp_all

lemma clamped_margin_iff:
  fixes mid :: real
  assumes "0 < effLev" and "0 \<le> taker" and "0 < mid"
    and "maxNotional = avail / (1 / effLev + taker)"
  shows "(maxSize * mid / effLev + maxSize * mid * taker \<le> avail) = (maxSize \<le> maxNotional / mid)"
proof -
  let ?d = "1 / effLev + taker"
  have d: "0 < ?d" using assms(1,2) by (simp add: add_pos_nonneg)
  have "maxSize * mid / effLev + maxSize * mid * taker = maxSize * mid * ?d"
    by (simp add: algebra_simps)
  moreover have "avail = maxNotional * ?d" using d assms(4) by simp
  ultimately have "(maxSize * mid / effLev + maxSize * mid * taker \<le> avail) =
                   (maxSize * mid * ?d \<le> maxNotional * ?d)" by simp
  also have "\<dots> = (maxSize * mid \<le> maxNotional)" using d by simp
  also have "\<dots> = (maxSize \<le> maxNotional / mid)" using assms(3) by (simp add: pos_le_divide_eq)
  finally show ?thesis .
qed

lemma example_size: "toFixed (2 / 1000) 4 = 2 / 1000"
  unfolding toFixed_def by simp

lemma example_maxSize: "toFixed (max 0 (19 / 10 / (1 / 20 + 45 / 100000) / 25000)) 4 = 15 / 10000"
  unfolding toFixed_def by simp

lemma example_zero_maxSize: "maxSizeOf 0 20 (45 / 100000) 25000 4 = 0"
  unfolding maxSizeOf_def Let_def toFixed_def by simp

text \<open>
  C6, as the code has it. Take a market order whose coin is known, whose size rounds to
  a positive lot size \<open>sz\<close>, and for which the leverage, the mid price (not zero), the
  balance and the account value are read without error, with a positive effective
  leverage (the configured leverage capped by the maximum of the coin) and a taker fee
  rate that is not negative. With \<open>maxNotional = avail / (1 / effLev + takerFeeRate)\<close> and
  \<open>maxSize\<close> its size at the mid price rounded to the lot precision, a non-reduce-only
  order is rejected with \<open>Insufficient available balance\<close> when it exceeds a maximum of
  zero; otherwise a size over the maximum is replaced by the maximum, with the warning.
  The itemized insufficient-balance result is returned exactly when the margin of the
  adjusted size plus its estimated taker fee exceeds the available balance, and the
  order is handed to the exchange with the adjusted size exactly when neither rejection
  applies. A reduce-only order is handed over with its size whatever the balance, the
  account value and the fee rate are, also when reading them fails.
\<close>

theorem placeMarketOrder_clamps_and_checks_margin:
  assumes coin: "m_coinInfo env = Inr info"
    and levr: "m_leverage env = Inr (Some lev)"
    and mids: "m_allMids env = Inr allMids"
    and mid: "allMids c = Some mid"
    and mid0: "mid \<noteq> 0"
    and bal: "m_balance env = Inr rawBalance"
    and acct: "m_accountValue env = Inr accountValue"
    and fee: "0 \<le> m_takerFeeRate env"
    and sz: "sz = toFixed requested (szDecimalsOf info)"
    and pos: "0 < sz"
    and effLev: "effLev = min lev (real (maxLeverageOf info))"
    and efl: "0 < effLev"
    and avail: "avail = (case rawBalance of None \<Rightarrow> 0 | Some b \<Rightarrow> max 0 b)"
    and maxNotional: "maxNotional = avail / (1 / effLev + m_takerFeeRate env)"
    and maxSize: "maxSize = toFixed (max 0 (maxNotional / mid)) (szDecimalsOf info)"
    and adjusted: "adjusted = min sz maxSize"
    and estFee: "estFee = adjusted * mid * m_takerFeeRate env"
    and req: "req = adjusted * mid / effLev + estFee"
    and res: "res = placeMarketOrder env c isBuy (Some requested) False slippage"
  shows "(maxSize < sz \<and> maxSize \<le> 0 \<longrightarrow>
            res = (None, Rejected (InsufficientAvailableBalance avail))) \<and>
         (\<not> (maxSize < sz \<and> maxSize \<le> 0) \<longrightarrow>
            fst res = (if maxSize < sz then Some (sz, maxSize) else None)) \<and>
         ((\<exists>r f a. snd res = Rejected (InsufficientBalance r f a)) = (avail < req)) \<and>
         (avail < req \<longrightarrow> snd res = Rejected (InsufficientBalance req estFee avail)) \<and>
         ((\<exists>q. snd res = Placed q) = (\<not> (maxSize < sz \<and> maxSize \<le> 0) \<and> req \<le> avail)) \<and>
         (\<not> (maxSize < sz \<and> maxSize \<le> 0) \<and> req \<le> avail \<longrightarrow>
            (\<exists>px. snd res = Placed \<lparr>q_coin = c, q_is_buy = isBuy, q_sz = adjusted, q_limit_px = px,
                                    q_reduce_only = False\<rparr>)) \<and>
         (\<exists>px. placeMarketOrder (env\<lparr>m_balance := b, m_accountValue := a, m_takerFeeRate := t\<rparr>)
                  c isBuy (Some requested) True slippage =
               (None, Placed \<lparr>q_coin = c, q_is_buy = isBuy, q_sz = sz, q_limit_px = px,
                               q_reduce_only = True\<rparr>))"
proof -
  let ?guard = "maxSize < sz \<and> maxSize \<le> 0"
  let ?warning = "if maxSize < sz then Some (sz, maxSize) else None"
  have efl': "0 < min lev (real (maxLeverageOf info))" using efl effLev by simp
  have pos': "0 < toFixed requested (szDecimalsOf info)" using pos sz by simp
  have ms: "maxSize = toFixed (max 0 (avail / (1 / effLev + m_takerFeeRate env) / mid)) (szDecimalsOf info)"
    unfolding maxSize maxNotional ..
  have "res = checkedOrder env info c isBuy sz slippage mid (Some lev) rawBalance"
    unfolding res sz by (rule placeMarketOrder_checked[OF coin levr mids mid mid0 bal pos'])
  also note checkedOrder_cases[OF efl' fee pos avail effLev ms adjusted estFee req refl,
      where c = c and isBuy = isBuy and sl = slippage]
  finally have r: "res =
     (if ?guard then (None, Rejected (InsufficientAvailableBalance avail))
      else if avail < req then (?warning, Rejected (InsufficientBalance req estFee avail))
      else (?warning, submitOrder env c isBuy adjusted False slippage mid))"
    unfolding acct by simp
  from submitOrder_placed[OF coin, of c isBuy adjusted False slippage mid] obtain px where
    px: "submitOrder env c isBuy adjusted False slippage mid =
           Placed \<lparr>q_coin = c, q_is_buy = isBuy, q_sz = adjusted, q_limit_px = px, q_reduce_only = False\<rparr>"
    by blast
  have a0: "0 \<le> avail" unfolding avail by (rule available_nonneg)
  have m0: "0 \<le> maxSize" unfolding maxSize by (rule toFixed_nonneg) simp
  have g: "?guard \<Longrightarrow> \<not> avail < req"
  proof -
    assume ?guard
    with m0 have "maxSize = 0" by simp
    with pos have "adjusted = 0" unfolding adjusted by simp
    then have "req = 0" unfolding req estFee by simp
    with a0 show ?thesis by simp
  qed
  have c1: "?guard \<longrightarrow> res = (None, Rejected (InsufficientAvailableBalance avail))"
    unfolding r by simp
  have c2: "\<not> ?guard \<longrightarrow> fst res = ?warning" unfolding r by simp
  have c3: "(\<exists>r f a. snd res = Rejected (InsufficientBalance r f a)) = (avail < req)"
  proof (cases ?guard)
    case True
    with g have "\<not> avail < req" by blast
    with True show ?thesis unfolding r by simp
  next
    case False
    then show ?thesis unfolding r px by (cases "avail < req") simp_all
  qed
  have c4: "avail < req \<longrightarrow> snd res = Rejected (InsufficientBalance req estFee avail)"
  proof
    assume l: "avail < req"
    with g have "\<not> ?guard" by blast
    with l show "snd res = Rejected (InsufficientBalance req estFee avail)" unfolding r by simp
  qed
  have c5: "(\<exists>q. snd res = Placed q) = (\<not> ?guard \<and> req \<le> avail)"
  proof (cases ?guard)
    case True
    then show ?thesis unfolding r by simp
  next
    case False
    then show ?thesis unfolding r px by (cases "avail < req") simp_all
  qed
  have c6: "\<not> ?guard \<and> req \<le> avail \<longrightarrow>
            (\<exists>px. snd res = Placed \<lparr>q_coin = c, q_is_buy = isBuy, q_sz = adjusted, q_limit_px = px,
                                    q_reduce_only = False\<rparr>)"
    unfolding r px by auto
  from submitOrder_placed[OF coin, of c isBuy sz True slippage mid] obtain px' where
    px': "submitOrder env c isBuy sz True slippage mid =
           Placed \<lparr>q_coin = c, q_is_buy = isBuy, q_sz = sz, q_limit_px = px', q_reduce_only = True\<rparr>"
    by blast
  have c7: "\<exists>px. placeMarketOrder (env\<lparr>m_balance := b, m_accountValue := a, m_takerFeeRate := t\<rparr>)
                  c isBuy (Some requested) True slippage =
               (None, Placed \<lparr>q_coin = c, q_is_buy = isBuy, q_sz = sz, q_limit_px = px,
                               q_reduce_only = True\<rparr>)"
    unfolding placeMarketOrder_reduceOnly[OF coin levr mids mid mid0 pos'] sz[symmetric] px' by blast
  from c1 c2 c3 c4 c5 c6 c7 show ?thesis by blast
qed

theorem placeMarketOrder_clamps_and_checks_margin_witness:
  "fst (placeMarketOrder exampleMarket ''BTC'' True (Some (2 / 1000)) False 0) =
     Some (2 / 1000, 15 / 10000) \<and>
   (\<exists>px. snd (placeMarketOrder exampleMarket ''BTC'' True (Some (2 / 1000)) False 0) =
      Placed \<lparr>q_coin = ''BTC'', q_is_buy = True, q_sz = 15 / 10000, q_limit_px = px,
               q_reduce_only = False\<rparr>) \<and>
   (\<exists>px. placeMarketOrder
            (exampleMarket\<lparr>m_balance := Inl ''unavailable'', m_accountValue := Inl ''unavailable'',
                            m_takerFeeRate := 1\<rparr>)
            ''BTC'' False (Some (2 / 1000)) True 0 =
      (None, Placed \<lparr>q_coin = ''BTC'', q_is_buy = False, q_sz = 2 / 1000, q_limit_px = px,
                      q_reduce_only = True\<rparr>))"
proof -
  note t = placeMarketOrder_clamps_and_checks_margin[
      where env = exampleMarket and info = "\<lparr>ci_szDecimals = Some 4, ci_maxLeverage = Some 50\<rparr>"
        and lev = 20 and allMids = "[''BTC'' \<mapsto> 25000]" and c = "''BTC''" and mid = 25000
        and rawBalance = "Some (19 / 10)" and accountValue = "19 / 10" and requested = "2 / 1000"
        and sz = "2 / 1000" and effLev = 20 and avail = "19 / 10"
        and maxNotional = "19 / 10 / (1 / 20 + 45 / 100000)" and maxSize = "15 / 10000"
        and adjusted = "15 / 10000" and estFee = "15 / 10000 * 25000 * (45 / 100000)"
        and req = "15 / 10000 * 25000 / 20 + 15 / 10000 * 25000 * (45 / 100000)"
        and slippage = 0
        and b = "Inl ''unavailable''" and a = "Inl ''unavailable''" and t = 1,
      OF _ _ _ _ _ _ _ _ _ _ _ _ _ _ _ _ _ _ refl]
  have h1: "m_coinInfo exampleMarket = Inr \<lparr>ci_szDecimals = Some 4, ci_maxLeverage = Some 50\<rparr>"
    and h2: "m_leverage exampleMarket = Inr (Some 20)"
    and h3: "m_allMids exampleMarket = Inr [''BTC'' \<mapsto> 25000]"
    and h6: "m_balance exampleMarket = Inr (Some (19 / 10))"
    and h7: "m_accountValue exampleMarket = Inr (19 / 10)"
    and h8: "0 \<le> m_takerFeeRate exampleMarket"
    unfolding exampleMarket_def by simp_all
  have h4: "[''BTC'' \<mapsto> 25000::real] ''BTC'' = Some 25000" by simp
  have h5: "(25000::real) \<noteq> 0" by simp
  have sd: "szDecimalsOf \<lparr>ci_szDecimals = Some 4, ci_maxLeverage = Some 50\<rparr> = 4"
    unfolding szDecimalsOf_def by simp
  have ml: "maxLeverageOf \<lparr>ci_szDecimals = Some 4, ci_maxLeverage = Some 50\<rparr> = 50"
    unfolding maxLeverageOf_def by simp
  have tf: "m_takerFeeRate exampleMarket = 45 / 100000" unfolding exampleMarket_def by simp
  have h9: "2 / 1000 = toFixed (2 / 1000) (szDecimalsOf \<lparr>ci_szDecimals = Some 4, ci_maxLeverage = Some 50\<rparr>)"
    unfolding sd example_size ..
  have h10: "(0::real) < 2 / 1000" by simp
  have h11: "(20::real) = min 20 (real (maxLeverageOf \<lparr>ci_szDecimals = Some 4, ci_maxLeverage = Some 50\<rparr>))"
    unfolding ml by simp
  have h12: "(0::real) < 20" by simp
  have h13: "(19 / 10 :: real) = (case Some (19 / 10) of None \<Rightarrow> 0 | Some b \<Rightarrow> max 0 b)" by simp
  have h14: "(19 / 10 / (1 / 20 + 45 / 100000) :: real) = 19 / 10 / (1 / 20 + m_takerFeeRate exampleMarket)"
    unfolding tf ..
  have h15: "(15 / 10000 :: real) = toFixed (max 0 (19 / 10 / (1 / 20 + 45 / 100000) / 25000))
                (szDecimalsOf \<lparr>ci_szDecimals = Some 4, ci_maxLeverage = Some 50\<rparr>)"
    unfolding sd example_maxSize ..
  have h16: "(15 / 10000 :: real) = min (2 / 1000) (15 / 10000)" by simp
  have h17: "(15 / 10000 * 25000 * (45 / 100000) :: real) = 15 / 10000 * 25000 * m_takerFeeRate exampleMarket"
    unfolding tf ..
  have h18: "(15 / 10000 * 25000 / 20 + 15 / 10000 * 25000 * (45 / 100000) :: real) =
             15 / 10000 * 25000 / 20 + 15 / 10000 * 25000 * (45 / 100000)" ..
  note u = t[OF h1 h2 h3 h4 h5 h6 h7 h8 h9 h10 h11 h12 h13 h14 h15 h16 h17 h18]
  have ng: "\<not> ((15 / 10000 :: real) < 2 / 1000 \<and> (15 / 10000 :: real) \<le> 0)" by simp
  have le: "(15 / 10000 * 25000 / 20 + 15 / 10000 * 25000 * (45 / 100000) :: real) \<le> 19 / 10" by simp
  have w: "(if (15 / 10000 :: real) < 2 / 1000 then Some (2 / 1000 :: real, 15 / 10000 :: real) else None) =
           Some (2 / 1000, 15 / 10000)" by simp
  from u ng have f: "fst (placeMarketOrder exampleMarket ''BTC'' True (Some (2 / 1000)) False 0) =
      (if (15 / 10000 :: real) < 2 / 1000 then Some (2 / 1000, 15 / 10000) else None)"
    by blast
  from u ng le have p: "\<exists>px. snd (placeMarketOrder exampleMarket ''BTC'' True (Some (2 / 1000)) False 0) =
      Placed \<lparr>q_coin = ''BTC'', q_is_buy = True, q_sz = 15 / 10000, q_limit_px = px,
               q_reduce_only = False\<rparr>"
    by blast
  from u have ro: "\<exists>px. placeMarketOrder
            (exampleMarket\<lparr>m_balance := Inl ''unavailable'', m_accountValue := Inl ''unavailable'',
                            m_takerFeeRate := 1\<rparr>)
            ''BTC'' False (Some (2 / 1000)) True 0 =
      (None, Placed \<lparr>q_coin = ''BTC'', q_is_buy = False, q_sz = 2 / 1000, q_limit_px = px,
                      q_reduce_only = True\<rparr>)"
    by blast
  from f[unfolded w] p ro show ?thesis by blast
qed

text \<open>
  C6 as stated fails where the maximum size is zero: with no available balance the
  maximum is 0, and a requested size of 0.002 is rejected instead of being replaced by
  the maximum and placed.
\<close>

theorem zero_balance_rejected_counterexample:
  "maxSizeOf 0 20 (45 / 100000) 25000 4 = 0 \<and>
   placeMarketOrder exampleEmptyAccount ''BTC'' True (Some (2 / 1000)) False 0 =
     (None, Rejected (InsufficientAvailableBalance 0))"
  unfolding placeMarketOrder_def checkedOrder_def Let_def exampleEmptyAccount_def exampleMarket_def
  using example_zero_maxSize example_size by (simp add: szDecimalsOf_def maxLeverageOf_def)

section \<open>Properties of the subscription multiplexer\<close>

































lemma entry_for_key:
  assumes "keyed subs" and "map_of subs key = Some s"
  shows "filter (\<lambda>e. fst e = key) subs = [(key, s)]"
proof -
  from assms(1) have d: "distinct (map fst subs)" unfolding keyed_def by simp
  from d assms(2) show ?thesis
  proof (induction subs)
    case Nil
    then show ?case by simp
  next
    case (Cons a subs)
    show ?case
    proof (cases "fst a = key")
      case True
      with Cons.prems have a: "a = (key, s)" by (cases a) simp
      from Cons.prems True have "key \<notin> fst ` set subs" by auto
      then have "filter (\<lambda>e. fst e = key) subs = []" by (auto simp: filter_empty_conv)
      with a show ?thesis by simp
    next
      case False
      with Cons show ?thesis by (cases a) auto
    qed
  qed
qed



















end
